theory Spec2Isabelle
  imports Complex_Main "HOL-Library.Word"
begin

section \<open>Values of the program\<close>

text \<open>
  The program is the single file \<^verbatim>\<open>src/index.tsx\<close>: a React component \<^verbatim>\<open>App\<close> whose
  handlers read the state of the last render and queue state updates. Each handler is
  embedded as a function from the state it is called on (and what the outside world
  answers) to the state after all of its updates have been applied, in order.

  A JavaScript string is a sequence of UTF-16 code units, and \<^verbatim>\<open>length\<close> and
  \<^verbatim>\<open>substring\<close> count code units. The literals of the source that the handlers inspect
  are ASCII; \<open>js\<close> embeds them.
\<close>

type_synonym jschar = "16 word"
type_synonym jsstring = "jschar list"

definition js :: "string \<Rightarrow> jsstring" where
  "js s = map (\<lambda>c. word_of_nat (of_char c)) s"

text \<open>
  Objects that are shared and mutated in place live in a store. A property that an
  object does not have reads as \<^verbatim>\<open>undefined\<close>. A number is an IEEE binary64 value in the
  source; \<open>VNum\<close> holds the real number it denotes.
\<close>

type_synonym addr = nat

datatype jsval = VUndefined | VStr jsstring | VNum real | VObj addr

type_synonym obj = "jsstring \<rightharpoonup> jsval"
type_synonym heap = "addr \<Rightarrow> obj"

definition get_prop :: "obj \<Rightarrow> jsstring \<Rightarrow> jsval" where
  "get_prop ob k = (case ob k of None \<Rightarrow> VUndefined | Some v \<Rightarrow> v)"

text \<open>\<^verbatim>\<open>xs[i]\<close> on an array: \<^verbatim>\<open>undefined\<close> (here \<open>None\<close>) outside \<open>0 .. length - 1\<close>.\<close>

definition array_get :: "'a list \<Rightarrow> int \<Rightarrow> 'a option" where
  "array_get xs i = (if 0 \<le> i \<and> i < int (length xs) then Some (xs ! nat i) else None)"

text \<open>What a handler call does: it returns, or a \<^verbatim>\<open>TypeError\<close> escapes from it.\<close>

datatype outcome = Returned | TypeError

section \<open>The workspace state\<close>

record Metrics =
  ocr_pages :: nat
  chars :: nat
  agents_run :: nat
  latency :: real

text \<open>
  A run log entry is the object literal built in \<^verbatim>\<open>handleRunChain\<close>. Each entry is a
  fresh object that only the run log refers to, so entries are kept as values. The
  source stores \<^verbatim>\<open>latency.toFixed(2)\<close>, a decimal string; \<open>latency_fixed\<close> is the number
  that string denotes.
\<close>

record RunLogEntry =
  agentName :: jsval
  model :: jsval
  "output" :: jsstring
  latency_fixed :: real

text \<open>
  \<open>agents\<close> and \<open>agentsRunConfig\<close> are arrays of references to agent objects in the
  store: an array is copied or replaced as a whole, the objects are mutated in place.
\<close>

record WorkspaceState =
  rawText :: jsstring
  agents :: "addr list"
  agentsRunConfig :: "addr list"
  runLog :: "RunLogEntry list"
  metrics :: Metrics
  isRunning :: bool
  error :: "jsstring option"

datatype tab = Ingestion | Agents | Run | Dashboard

text \<open>
  The state of \<^verbatim>\<open>App\<close>: the store, the \<^verbatim>\<open>workspace\<close> state and the active tab. The
  status line shown during OCR (\<^verbatim>\<open>ocrStatus\<close>) is display only and is left out.
\<close>

record App =
  heap :: heap
  workspace :: WorkspaceState
  activeTab :: tab

section \<open>Dashboard: the completion score\<close>

text \<open>\<^verbatim>\<open>TabDashboard\<close>: \<^verbatim>\<open>let score = 0\<close> and three \<^verbatim>\<open>if (...) score++\<close> in a row.\<close>

definition score :: "Metrics \<Rightarrow> nat" where
  "score m =
     (let score0 = 0;
          score1 = (if 0 < ocr_pages m \<or> 1000 < chars m then score0 + 1 else score0);
          score2 = (if 2 \<le> agents_run m then score1 + 1 else score1);
          score3 = (if 5000 < chars m \<and> 4 \<le> agents_run m then score2 + 1 else score2)
      in score3)"

text \<open>\<^verbatim>\<open>statusMap[score].label\<close>; a key that is not in the map has no label.\<close>

definition statusLabel :: "nat \<Rightarrow> string option" where
  "statusLabel s =
     (if s = 0 then Some ''Getting Started''
      else if s = 1 then Some ''Warming Up''
      else if s = 2 then Some ''On Track''
      else if s = 3 then Some ''Wow! Pro Level''
      else None)"

section \<open>Export\<close>

record ChainItem =
  agent :: jsval
  chain_model :: jsval
  chain_output :: jsstring

record ExportData =
  guidance_excerpt :: jsstring
  chain :: "ChainItem list"
  export_metrics :: Metrics

text \<open>\<^verbatim>\<open>s.substring(0, 1000)\<close>: the code units of \<open>s\<close> at the indices below 1000.\<close>

definition substring_0_1000 :: "jsstring \<Rightarrow> jsstring" where
  "substring_0_1000 s = take 1000 s"

text \<open>
  \<^verbatim>\<open>downloadResults\<close> builds \<^verbatim>\<open>exportData\<close>, serialises it with \<^verbatim>\<open>JSON.stringify\<close> and
  clicks a link whose \<^verbatim>\<open>download\<close> attribute is the file name. The embedding returns
  the file name and the object that is serialised.
\<close>

definition downloadResults :: "App \<Rightarrow> string \<times> ExportData" where
  "downloadResults st =
     (let exportData =
            \<lparr> guidance_excerpt = substring_0_1000 (rawText (workspace st)),
              chain = map (\<lambda>e. \<lparr> agent = agentName e, chain_model = model e,
                                  chain_output = output e \<rparr>)
                          (runLog (workspace st)),
              export_metrics = metrics (workspace st) \<rparr>
      in (''agent_chain_results.json'', exportData))"

section \<open>The initial state\<close>

text \<open>
  The text constants of the source, as UTF-16 code units: the orchestrator prompt
  (lines 20 to 34), the four system prompts built from it (lines 43, 50, 57 and 64), and
  the guidance text the workspace starts with (lines 68 to 103).
\<close>

definition REGULATORY_ORCHESTRATOR_PROMPT :: jsstring where
  "REGULATORY_ORCHESTRATOR_PROMPT =
     [0x000A] @
     js ''You are an expert regulatory reviewer for medical devices. Your job is '' @
     js ''to:'' @
     [0x000A] @
     js ''- Read guidance/regulations in Traditional Chinese and/or English.'' @
     [0x000A] @
     js ''- Extract granular, testable requirements with traceability to the '' @
     js ''guidance (IDs, sections, references).'' @
     [0x000A] @
     js ''- Evaluate dossier/evidence completeness, highlight gaps, risks, and '' @
     js ''remediation steps.'' @
     [0x000A] @
     js ''- Produce structured JSON outputs plus a human-friendly summary and '' @
     js ''checklist.'' @
     [0x000A] @
     js ''- Preserve bilingual fidelity where present (Traditional Chinese + '' @
     js ''English labels).'' @
     [0x000A] @
     js ''- Be precise; avoid hallucinations; cite exact lines/sections, page '' @
     js ''numbers, or figure labels when available.'' @
     [0x000A, 0x000A] @
     js ''General rules:'' @
     [0x000A] @
     js ''- Do not invent missing data. Mark as Missing and propose specific, '' @
     js ''minimal compliant evidence.'' @
     [0x000A] @
     js ''- Keep outputs schema-valid JSON where requested. Provide short Markdown '' @
     js ''summary only where asked.'' @
     [0x000A] @
     js ''- When OCR text is noisy, note uncertainties and recommend page-level '' @
     js ''re-scan.'' @
     [0x000A] @
     js ''- No chain-of-thought. Provide only final reasoning succinctly as '' @
     [0x201C] @
     js ''rationale'' @
     [0x201D] @
     js '' fields when required.'' @
     [0x000A]"

definition system_prompt_RequirementExtractor :: jsstring where
  "system_prompt_RequirementExtractor =
     REGULATORY_ORCHESTRATOR_PROMPT @
     [0x000A] @
     js ''ROLE: Requirement Extractor.'' @
     [0x000A] @
     js ''TASK: Extract all explicit and implicit requirements from the provided '' @
     js ''guidance into a clean, deduplicated list with unique IDs.'' @
     [0x000A] @
     js ''OUTPUT: JSON with fields: items[{id, title, requirement, category, '' @
     js ''references, priority}].'' @
     [0x000A] @
     js ''STYLE: concise, complete, bilingual labels if possible (Traditional '' @
     js ''Chinese and English).''"

definition system_prompt_GapAnalyzer :: jsstring where
  "system_prompt_GapAnalyzer =
     REGULATORY_ORCHESTRATOR_PROMPT @
     [0x000A] @
     js ''ROLE: Gap Analyzer.'' @
     [0x000A] @
     js ''INPUTS: requirements JSON and dossier/evidence text.'' @
     [0x000A] @
     js ''TASK: For each requirement, classify coverage (Covered/Partial/Missing), '' @
     js ''cite evidence snippets, and list missing evidence.'' @
     [0x000A] @
     js ''OUTPUT: JSON with fields: coverage[{req_id, status, evidence_snippets[], '' @
     js ''missing_evidence[], risk_level, remediation_suggestions[]}].''"

definition system_prompt_EvidenceMapper :: jsstring where
  "system_prompt_EvidenceMapper =
     REGULATORY_ORCHESTRATOR_PROMPT @
     [0x000A] @
     js ''ROLE: Evidence Mapper.'' @
     [0x000A] @
     js ''TASK: Build a bidirectional traceability matrix between requirements and '' @
     js ''provided document sections/pages.'' @
     [0x000A] @
     js ''OUTPUT: JSON with fields: trace[{req_id, doc_id, page, snippet, '' @
     js ''confidence}].''"

definition system_prompt_ChecklistFormatter :: jsstring where
  "system_prompt_ChecklistFormatter =
     REGULATORY_ORCHESTRATOR_PROMPT @
     [0x000A] @
     js ''ROLE: Checklist Formatter.'' @
     [0x000A] @
     js ''TASK: Generate a final checklist table and executive summary (TC/EN '' @
     js ''bilingual section headers).'' @
     [0x000A] @
     js ''OUTPUT: JSON {summary, checklist_markdown, key_risks[], next_actions[], '' @
     js ''glossary[]} and Markdown preview.''"

definition initialGuidanceText :: jsstring where
  "initialGuidanceText =
     [0x4EE5, 0x4E0B, 0x70BA, 0x4F9D, 0x60A8, 0x63D0, 0x4F9B, 0x4E4B, 0x5BE9, 0x67E5, 0x6AA2, 0x6838,
      0x8868, 0xFF08, 0x7E41, 0x9AD4, 0x4E2D, 0x6587, 0xFF09, 0x6240, 0x5EFA, 0x7F6E, 0x7684, 0x0020,
      0x0046, 0x0044, 0x0041, 0x002F, 0x0054, 0x0046, 0x0044, 0x0041, 0x0020, 0x91AB, 0x7642, 0x5668,
      0x6750, 0x5BE9, 0x67E5, 0x8868, 0xFF08, 0x004D, 0x0061, 0x0072, 0x006B, 0x0064, 0x006F, 0x0077,
      0x006E, 0xFF09, 0x3002, 0x6BCF, 0x4E00, 0x5217, 0x7684, 0x300C, 0x72C0, 0x614B, 0x300D, 0x6B04,
      0x4F4D, 0x53EF, 0x52FE, 0x9078, 0xFF1A, 0x0041, 0x0047, 0x0052, 0x0045, 0x0045, 0x0020, 0x002F,
      0x0020, 0x0044, 0x0049, 0x0053, 0x0041, 0x0047, 0x0052, 0x0045, 0x0045, 0x0020, 0x002F, 0x0020,
      0x004E, 0x0041, 0xFF0C, 0x4E26, 0x4FDD, 0x7559, 0x300C, 0x8B49, 0x64DA, 0x002F, 0x9023, 0x7D50,
      0x300D, 0x8207, 0x300C, 0x5099, 0x8A3B, 0x300D, 0x6B04, 0x4F4D, 0x4F9B, 0x4E0A, 0x50B3, 0x8207,
      0x7D00, 0x9304, 0x3002, 0x000A, 0x000A, 0x8AAA, 0x660E, 0x000A, 0x000A, 0x72C0, 0x614B, 0x586B,
      0x5BEB, 0x65B9, 0x5F0F, 0xFF1A, 0x25A1, 0x0020, 0x0041, 0x0047, 0x0052, 0x0045, 0x0045, 0x0020,
      0x25A1, 0x0020, 0x0044, 0x0049, 0x0053, 0x0041, 0x0047, 0x0052, 0x0045, 0x0045, 0x0020, 0x25A1,
      0x0020, 0x004E, 0x0041, 0xFF08, 0x64C7, 0x4E00, 0x52FE, 0x9078, 0xFF09, 0x000A, 0x53EF, 0x65BC,
      0x300C, 0x8B49, 0x64DA, 0x002F, 0x9023, 0x7D50, 0x300D, 0x6B04, 0x9644, 0x4E0A, 0x6A94, 0x6848,
      0x4F4D, 0x7F6E, 0x3001, 0x96F2, 0x7AEF, 0x8CC7, 0x6599, 0x593E, 0x6216, 0x516C, 0x958B, 0x8CC7,
      0x6599, 0x5EAB, 0x9023, 0x7D50, 0xFF08, 0x5982, 0x0020, 0x0035, 0x0031, 0x0030, 0x0028, 0x006B,
      0x0029, 0x0020, 0x6AA2, 0x7D22, 0x3001, 0x0051, 0x004D, 0x0053, 0x0020, 0x8B49, 0x66F8, 0xFF09,
      0x000A, 0x8868, 0x683C, 0x5DF2, 0x6309, 0x539F, 0x6E05, 0x55AE, 0x9805, 0x6B21, 0x5206, 0x7BC0,
      0x5448, 0x73FE, 0xFF0C, 0x4FBF, 0x65BC, 0x5167, 0x5916, 0x90E8, 0x5BE9, 0x6838, 0x8FFD, 0x8E64,
      0x000A, 0x4E00, 0x3001, 0x672C, 0x6848, 0x53CA, 0x76F8, 0x95DC, 0x6848, 0x4EF6, 0x80CC, 0x666F,
      0x8AAA, 0x660E, 0x000A, 0x000A, 0x9805, 0x6B21, 0x0009, 0x5BE9, 0x67E5, 0x91CD, 0x9EDE, 0x0009,
      0x72C0, 0x614B, 0x0009, 0x8B49, 0x64DA, 0x002F, 0x9023, 0x7D50, 0x0009, 0x5099, 0x8A3B, 0x000A,
      0x0031, 0x002D, 0x0031, 0x0009, 0x7B26, 0x5408, 0x512A, 0x5148, 0x5BE9, 0x67E5, 0x4E4B, 0x4F50,
      0x8B49, 0x6587, 0x4EF6, 0x002F, 0x8CC7, 0x6599, 0xFF08, 0x4E8C, 0x64C7, 0x4E00, 0xFF09, 0x0009,
      0x25A1, 0x0020, 0x0041, 0x0047, 0x0052, 0x0045, 0x0045, 0x0020, 0x25A1, 0x0020, 0x0044, 0x0049,
      0x0053, 0x0041, 0x0047, 0x0052, 0x0045, 0x0045, 0x0020, 0x25A1, 0x0020, 0x004E, 0x0041, 0x0009,
      0x0009, 0x000A, 0x0031, 0x002D, 0x0032, 0x0009, 0x5217, 0x8209, 0x76F8, 0x95DC, 0x80CC, 0x666F,
      0x8CC7, 0x6599, 0x0009, 0x25A1, 0x0020, 0x0041, 0x0047, 0x0052, 0x0045, 0x0045, 0x0020, 0x25A1,
      0x0020, 0x0044, 0x0049, 0x0053, 0x0041, 0x0047, 0x0052, 0x0045, 0x0045, 0x0020, 0x25A1, 0x0020,
      0x004E, 0x0041, 0x0009, 0x0009, 0x000A, 0x4E8C, 0x3001, 0x662F, 0x5426, 0x6AA2, 0x9644, 0x672C,
      0x90E8, 0x6838, 0x51C6, 0x985E, 0x4F3C, 0x54C1, 0x4E4B, 0x76F8, 0x95DC, 0x8CC7, 0x6599, 0x000A,
      0x000A, 0x9805, 0x6B21, 0x0009, 0x5BE9, 0x67E5, 0x91CD, 0x9EDE, 0x0009, 0x72C0, 0x614B, 0x0009,
      0x8B49, 0x64DA, 0x002F, 0x9023, 0x7D50, 0x0009, 0x5099, 0x8A3B, 0x000A, 0x0032, 0x002D, 0x0031,
      0x0009, 0x672C, 0x90E8, 0x6838, 0x51C6, 0x985E, 0x4F3C, 0x54C1, 0x8CC7, 0x6599, 0xFF08, 0x8A31,
      0x53EF, 0x8B49, 0x5B57, 0x865F, 0x3001, 0x4EFF, 0x55AE, 0x002F, 0x6A19, 0x7C64, 0x6838, 0x5B9A,
      0x672C, 0x5F71, 0x672C, 0x6216, 0x6BD4, 0x8F03, 0x8868, 0xFF09, 0x0009, 0x25A1, 0x0020, 0x0041,
      0x0047, 0x0052, 0x0045, 0x0045, 0x0020, 0x25A1, 0x0020, 0x0044, 0x0049, 0x0053, 0x0041, 0x0047,
      0x0052, 0x0045, 0x0045, 0x0020, 0x25A1, 0x0020, 0x004E, 0x0041, 0x0009, 0x0009, 0x82E5, 0x5177,
      0x6B64, 0x8CC7, 0x6599, 0xFF0C, 0x0032, 0x002D, 0x0032, 0x3001, 0x0032, 0x002D, 0x0033, 0x5F97,
      0x514D, 0x9644, 0x000A, 0x0032, 0x002D, 0x0032, 0x0009, 0x5B78, 0x8853, 0x7406, 0x8AD6, 0x4F9D,
      0x64DA, 0x8207, 0x7814, 0x7A76, 0x5831, 0x544A, 0x8CC7, 0x6599, 0x0009, 0x25A1, 0x0020, 0x0041,
      0x0047, 0x0052, 0x0045, 0x0045, 0x0020, 0x25A1, 0x0020, 0x0044, 0x0049, 0x0053, 0x0041, 0x0047,
      0x0052, 0x0045, 0x0045, 0x0020, 0x25A1, 0x0020, 0x004E, 0x0041, 0x0009, 0x0009, 0x000A, 0x0032,
      0x002D, 0x0033, 0x0009, 0x81E8, 0x5E8A, 0x8A66, 0x9A57, 0x5831, 0x544A, 0x0009, 0x25A1, 0x0020,
      0x0041, 0x0047, 0x0052, 0x0045, 0x0045, 0x0020, 0x25A1, 0x0020, 0x0044, 0x0049, 0x0053, 0x0041,
      0x0047, 0x0052, 0x0045, 0x0045, 0x0020, 0x25A1, 0x0020, 0x004E, 0x0041, 0x0009, 0x0009, 0x000A,
      0x0032, 0x002D, 0x0034, 0x0009, 0x662F, 0x5426, 0x5C6C, 0x7121, 0x985E, 0x4F3C, 0x54C1, 0x91AB,
      0x7642, 0x5668, 0x6750, 0x0009, 0x25A1, 0x0020, 0x0041, 0x0047, 0x0052, 0x0045, 0x0045, 0x0020,
      0x25A1, 0x0020, 0x0044, 0x0049, 0x0053, 0x0041, 0x0047, 0x0052, 0x0045, 0x0045, 0x0020, 0x25A1,
      0x0020, 0x004E, 0x0041, 0x0009, 0x0009, 0x000A, 0x4E09, 0x3001, 0x539F, 0x5EE0, 0x540C, 0x4E00,
      0x7522, 0x54C1, 0x4E0D, 0x540C, 0x54C1, 0x540D, 0x4E4B, 0x8AAA, 0x660E, 0x51FD, 0x6B63, 0x672C,
      0x000A, 0x000A, 0x9805, 0x6B21, 0x0009, 0x5BE9, 0x67E5, 0x91CD, 0x9EDE, 0x0009, 0x72C0, 0x614B,
      0x0009, 0x8B49, 0x64DA, 0x002F, 0x9023, 0x7D50, 0x0009, 0x5099, 0x8A3B, 0x000A, 0x0033, 0x002D,
      0x0031, 0x0009, 0x8AAA, 0x660E, 0x65B0, 0x820A, 0x54C1, 0x70BA, 0x76F8, 0x540C, 0x7522, 0x54C1,
      0x4E26, 0x8A3B, 0x660E, 0x539F, 0x8A31, 0x53EF, 0x8B49, 0x5B57, 0x865F, 0xFF1B, 0x9644, 0x8A31,
      0x53EF, 0x8B49, 0x8207, 0x6838, 0x5B9A, 0x6A19, 0x7C64, 0x002F, 0x8AAA, 0x660E, 0x66F8, 0x002F,
      0x5305, 0x88DD, 0x5F71, 0x672C, 0x0009, 0x25A1, 0x0020, 0x0041, 0x0047, 0x0052, 0x0045, 0x0045,
      0x0020, 0x25A1, 0x0020, 0x0044, 0x0049, 0x0053, 0x0041, 0x0047, 0x0052, 0x0045, 0x0045, 0x0020,
      0x25A1, 0x0020, 0x004E, 0x0041, 0x0009, 0x0009, 0x000A, 0x56DB, 0x3001, 0x7533, 0x8ACB, 0x66F8,
      0x000A, 0x000A, 0x9805, 0x6B21, 0x0009, 0x5BE9, 0x67E5, 0x91CD, 0x9EDE, 0x0009, 0x72C0, 0x614B,
      0x0009, 0x8B49, 0x64DA, 0x002F, 0x9023, 0x7D50, 0x0009, 0x5099, 0x8A3B, 0x000A, 0x0034, 0x002D,
      0x0031, 0x0009, 0x7533, 0x8ACB, 0x66F8, 0x4E2D, 0x82F1, 0x6587, 0x7E55, 0x6253, 0x4E26, 0x4F9D,
      0x9001, 0x5BE9, 0x8CC7, 0x6599, 0x8A73, 0x5BE6, 0x586B, 0x8868, 0x0009, 0x25A1, 0x0020, 0x0041,
      0x0047, 0x0052, 0x0045, 0x0045, 0x0020, 0x25A1, 0x0020, 0x0044, 0x0049, 0x0053, 0x0041, 0x0047,
      0x0052, 0x0045, 0x0045, 0x0020, 0x25A1, 0x0020, 0x004E, 0x0041, 0x0009, 0x0009, 0x000A, 0x0034,
      0x002D, 0x0032, 0x0009, 0x5404, 0x6B04, 0x4F4D, 0x8A73, 0x586B, 0xFF0C, 0x4E26, 0x52A0, 0x84CB,
      0x91AB, 0x7642, 0x5668, 0x6750, 0x5546, 0x53CA, 0x8CA0, 0x8CAC, 0x4EBA, 0x5370, 0x9451, 0x0009,
      0x25A1, 0x0020, 0x0041, 0x0047, 0x0052, 0x0045, 0x0045, 0x0020, 0x25A1, 0x0020, 0x0044, 0x0049,
      0x0053, 0x0041, 0x0047, 0x0052, 0x0045, 0x0045, 0x0020, 0x25A1, 0x0020, 0x004E, 0x0041, 0x0009,
      0x0009, 0x000A, 0x0034, 0x002D, 0x0033, 0x0009, 0x8F09, 0x660E, 0x4E2D, 0x6587, 0x002F, 0x82F1,
      0x6587, 0x54C1, 0x540D, 0x3001, 0x578B, 0x865F, 0x3001, 0x898F, 0x683C, 0xFF0C, 0x8207, 0x88FD,
      0x552E, 0x8B49, 0x660E, 0x53CA, 0x6388, 0x6B0A, 0x66F8, 0x76F8, 0x7B26, 0x0009, 0x25A1, 0x0020,
      0x0041, 0x0047, 0x0052, 0x0045, 0x0045, 0x0020, 0x25A1, 0x0020, 0x0044, 0x0049, 0x0053, 0x0041,
      0x0047, 0x0052, 0x0045, 0x0045, 0x0020, 0x25A1, 0x0020, 0x004E, 0x0041, 0x0009, 0x0009, 0x000A,
      0x0034, 0x002D, 0x0034, 0x0009, 0x54C1, 0x540D, 0x7B26, 0x5408, 0x6838, 0x5B9A, 0x539F, 0x5247,
      0x0009, 0x25A1, 0x0020, 0x0041, 0x0047, 0x0052, 0x0045, 0x0045, 0x0020, 0x25A1, 0x0020, 0x0044,
      0x0049, 0x0053, 0x0041, 0x0047, 0x0052, 0x0045, 0x0045, 0x0020, 0x25A1, 0x0020, 0x004E, 0x0041,
      0x0009, 0x0009, 0x000A, 0x0034, 0x002D, 0x0035, 0x0009, 0x54C1, 0x540D, 0x51A0, 0x5546, 0x6A19,
      0xFF1A, 0x6AA2, 0x9644, 0x5546, 0x6A19, 0x8A3B, 0x518A, 0x8CC7, 0x6599, 0xFF1B, 0x51A0, 0x4ED6,
      0x5546, 0x540D, 0x7A31, 0x002F, 0x5546, 0x6A19, 0xFF1A, 0x6AA2, 0x9644, 0x540C, 0x610F, 0x51FD,
      0x0009, 0x25A1, 0x0020, 0x0041, 0x0047, 0x0052, 0x0045, 0x0045, 0x0020, 0x25A1, 0x0020, 0x0044,
      0x0049, 0x0053, 0x0041, 0x0047, 0x0052, 0x0045, 0x0045, 0x0020, 0x25A1, 0x0020, 0x004E, 0x0041,
      0x0009, 0x0009, 0x000A, 0x0034, 0x002D, 0x0036, 0x0009, 0x7533, 0x8ACB, 0x91AB, 0x7642, 0x5668,
      0x6750, 0x5546, 0x540D, 0x7A31, 0x3001, 0x5730, 0x5740, 0x8207, 0x8A31, 0x53EF, 0x57F7, 0x7167,
      0x76F8, 0x7B26, 0x0009, 0x25A1, 0x0020, 0x0041, 0x0047, 0x0052, 0x0045, 0x0045, 0x0020, 0x25A1,
      0x0020, 0x0044, 0x0049, 0x0053, 0x0041, 0x0047, 0x0052, 0x0045, 0x0045, 0x0020, 0x25A1, 0x0020,
      0x004E, 0x0041, 0x0009, 0x0009, 0x000A, 0x0034, 0x002D, 0x0037, 0x0009, 0x88FD, 0x9020, 0x696D,
      0x8005, 0x540D, 0x7A31, 0x3001, 0x5730, 0x5740, 0x0009, 0x25A1, 0x0020, 0x0041, 0x0047, 0x0052,
      0x0045, 0x0045, 0x0020, 0x25A1, 0x0020, 0x0044, 0x0049, 0x0053, 0x0041, 0x0047, 0x0052, 0x0045,
      0x0045, 0x0020, 0x25A1, 0x0020, 0x004E, 0x0041, 0x0009, 0x0009, 0x000A, 0x0034, 0x002D, 0x0038,
      0x0009, 0x59D4, 0x8A17, 0x88FD, 0x9020, 0xFF1A, 0x5206, 0x5225, 0x5217, 0x51FA, 0x59D4, 0x8A17,
      0x8005, 0x002F, 0x53D7, 0x8A17, 0x88FD, 0x9020, 0x8005, 0x540D, 0x7A31, 0x3001, 0x5730, 0x5740,
      0x3010, 0x004D, 0x0061, 0x006E, 0x0075, 0x0066, 0x0061, 0x0063, 0x0074, 0x0075, 0x0072, 0x0065,
      0x0064, 0x0020, 0x0062, 0x0079, 0x0020, 0x0041, 0x0020, 0x0028, 0x2026, 0x0029, 0x0020, 0x0066,
      0x006F, 0x0072, 0x0020, 0x0042, 0x0020, 0x0028, 0x2026, 0x0029, 0x3011, 0x0009, 0x25A1, 0x0020,
      0x0041, 0x0047, 0x0052, 0x0045, 0x0045, 0x0020, 0x25A1, 0x0020, 0x0044, 0x0049, 0x0053, 0x0041,
      0x0047, 0x0052, 0x0045, 0x0045, 0x0020, 0x25A1, 0x0020, 0x004E, 0x0041, 0x0009, 0x0009, 0x000A,
      0x0034, 0x002D, 0x0039, 0x0009, 0x975E, 0x540C, 0x7CFB, 0x5217, 0x540D, 0x7A31, 0x4E4B, 0x4E0D,
      0x540C, 0x578B, 0x865F, 0xFF08, 0x4EE5, 0x539F, 0x5EE0, 0x8AAA, 0x660E, 0x66F8, 0x539F, 0x540D,
      0x70BA, 0x6E96, 0xFF09, 0x9808, 0x53E6, 0x6848, 0x8FA6, 0x7406, 0x0009, 0x25A1, 0x0020, 0x0041,
      0x0047, 0x0052, 0x0045, 0x0045, 0x0020, 0x25A1, 0x0020, 0x0044, 0x0049, 0x0053, 0x0041, 0x0047,
      0x0052, 0x0045, 0x0045, 0x0020, 0x25A1, 0x0020, 0x004E, 0x0041, 0x0009, 0x0009, 0x000A]"

text \<open>
  \<^verbatim>\<open>initialAgents\<close> is one array of four object literals, each with a nested \<^verbatim>\<open>params\<close>
  object. Agent \<open>k\<close> is allocated at address \<open>2 * k\<close> and its \<^verbatim>\<open>params\<close> at
  \<open>2 * k + 1\<close>.
\<close>

definition agent_object :: "string \<Rightarrow> string \<Rightarrow> string \<Rightarrow> addr \<Rightarrow> jsstring \<Rightarrow> obj" where
  "agent_object n d m p sp =
     [js ''name'' \<mapsto> VStr (js n),
      js ''description'' \<mapsto> VStr (js d),
      js ''model'' \<mapsto> VStr (js m),
      js ''params'' \<mapsto> VObj p,
      js ''system_prompt'' \<mapsto> VStr sp]"

definition params_object :: "real \<Rightarrow> real \<Rightarrow> obj" where
  "params_object t n =
     [js ''temperature'' \<mapsto> VNum t, js ''maxOutputTokens'' \<mapsto> VNum n]"

definition initialHeap :: heap where
  "initialHeap =
     (\<lambda>a. Map.empty)
     (0 := agent_object ''RequirementExtractor''
             ''Extracts structured requirements from the guidance.''
             ''gemini-2.5-flash'' 1 system_prompt_RequirementExtractor,
      1 := params_object (2 / 10) 2000,
      2 := agent_object ''GapAnalyzer''
             ''Compares provided dossier/evidence against extracted requirements to find gaps.''
             ''gemini-2.5-pro'' 3 system_prompt_GapAnalyzer,
      3 := params_object (2 / 10) 2000,
      4 := agent_object ''EvidenceMapper''
             ''Maps documents/pages to requirements with traceability links.''
             ''gemini-2.5-flash'' 5 system_prompt_EvidenceMapper,
      5 := params_object (2 / 10) 1800,
      6 := agent_object ''ChecklistFormatter''
             ''Produces a reviewer-ready checklist and summary.''
             ''gemini-2.5-flash'' 7 system_prompt_ChecklistFormatter,
      7 := params_object (1 / 10) 2200)"

definition initialAgents :: "addr list" where
  "initialAgents = [0, 2, 4, 6]"

text \<open>
  \<^verbatim>\<open>useState({rawText: initialGuidanceText, agents: initialAgents, agentsRunConfig:
  initialAgents, ...})\<close> and \<^verbatim>\<open>useState('ingestion')\<close>: both lists are the same array of
  the same four objects.
\<close>

definition initialApp :: App where
  "initialApp =
     \<lparr> heap = initialHeap,
       workspace =
         \<lparr> rawText = initialGuidanceText,
           agents = initialAgents,
           agentsRunConfig = initialAgents,
           runLog = [],
           metrics = \<lparr> ocr_pages = 0, chars = length initialGuidanceText,
                       agents_run = 0, latency = 0 \<rparr>,
           isRunning = False,
           error = None \<rparr>,
       activeTab = Ingestion \<rparr>"

section \<open>Agent registry: editing the run configuration\<close>

fun startsWith :: "'a list \<Rightarrow> 'a list \<Rightarrow> bool" where
  "startsWith s [] = True"
| "startsWith [] (p # ps) = False"
| "startsWith (c # cs) (p # ps) = (c = p \<and> startsWith cs ps)"

text \<open>\<^verbatim>\<open>s.split(sep)\<close> for a separator of one code unit.\<close>

fun split :: "'a \<Rightarrow> 'a list \<Rightarrow> 'a list list" where
  "split sep [] = [[]]"
| "split sep (c # cs) =
     (if c = sep then [] # split sep cs
      else (case split sep cs of
              [] \<Rightarrow> [[c]]
            | part # parts \<Rightarrow> (c # part) # parts))"

text \<open>
  \<^verbatim>\<open>field.split('.')[1]\<close> used as a property key; a missing element would be
  \<^verbatim>\<open>undefined\<close>, whose key is the string \<^verbatim>\<open>undefined\<close>.
\<close>

definition paramKey_of :: "jsstring \<Rightarrow> jsstring" where
  "paramKey_of field =
     (case split 0x2E field of
        part0 # part1 # parts \<Rightarrow> part1
      | _ \<Rightarrow> js ''undefined'')"

text \<open>
  \<^verbatim>\<open>handleRunConfigChange(index, field, value)\<close>. \<^verbatim>\<open>newConfig\<close> is a new array holding the
  same object references. Reading a property of \<^verbatim>\<open>undefined\<close> throws a
  \<^verbatim>\<open>TypeError\<close>, and so does (in a module, which is strict code) creating a property on
  a string or a number. The assignments write into the object in the store; the state
  update is reached only if nothing was thrown. The index is an integer, as the callers
  pass it; the key \<^verbatim>\<open>__proto__\<close>, which JavaScript treats apart, is stored like any
  other key here.
\<close>

definition handleRunConfigChange :: "App \<Rightarrow> int \<Rightarrow> jsstring \<Rightarrow> jsval \<Rightarrow> outcome \<times> App" where
  "handleRunConfigChange st index field val =
     (let newConfig = agentsRunConfig (workspace st) in
      if startsWith field (js ''params.'') then
        (let paramKey = paramKey_of field in
         case array_get newConfig index of
           None \<Rightarrow> (TypeError, st)
         | Some a \<Rightarrow>
             (case get_prop (heap st a) (js ''params'') of
                VObj p \<Rightarrow>
                  (Returned,
                   st\<lparr> heap := (heap st)(p := (heap st p)(paramKey \<mapsto> val)),
                       workspace := (workspace st)\<lparr> agentsRunConfig := newConfig \<rparr> \<rparr>)
              | _ \<Rightarrow> (TypeError, st)))
      else
        (case array_get newConfig index of
           None \<Rightarrow> (TypeError, st)
         | Some a \<Rightarrow>
             (Returned,
              st\<lparr> heap := (heap st)(a := (heap st a)(field \<mapsto> val)),
                  workspace := (workspace st)\<lparr> agentsRunConfig := newConfig \<rparr> \<rparr>)))"

section \<open>Run log: editing a handoff\<close>

text \<open>
  \<^verbatim>\<open>handleHandoffEdit(index, newOutput)\<close>: a copy of the run log array, whose entry at
  \<open>index\<close> gets a new \<^verbatim>\<open>output\<close>. The handler calls nothing else: no agent is invoked.
\<close>

definition handleHandoffEdit :: "App \<Rightarrow> int \<Rightarrow> jsstring \<Rightarrow> outcome \<times> App" where
  "handleHandoffEdit st index newOutput =
     (let newRunLog = runLog (workspace st) in
      case array_get newRunLog index of
        None \<Rightarrow> (TypeError, st)
      | Some entry \<Rightarrow>
          (Returned,
           st\<lparr> workspace := (workspace st)
                 \<lparr> runLog := newRunLog[nat index := entry\<lparr> output := newOutput \<rparr>] \<rparr> \<rparr>))"

section \<open>Document ingestion\<close>

text \<open>
  What the browser hands to \<^verbatim>\<open>handleFileChange\<close>: no file; a file that is not a PDF,
  with the text \<^verbatim>\<open>FileReader\<close> reads from it (\<open>None\<close>: the read fails and \<^verbatim>\<open>onload\<close>
  never runs); or a PDF, with what OCR gives for each of its \<^verbatim>\<open>numPages\<close> pages
  (\<open>None\<close>: the document does not load). A page whose rendering or recognition is
  rejected ends the \<^verbatim>\<open>onload\<close> callback there, before any state update.
\<close>

datatype page_result = Recognized jsstring | PageRejected

datatype upload = NoFile | TextFile "jsstring option" | PdfFile "page_result list option"

text \<open>The loop of \<^verbatim>\<open>handlePdfUpload\<close>: \<^verbatim>\<open>fullText += text + '\n\n'\<close> for each page in turn.\<close>

fun ocr_loop :: "page_result list \<Rightarrow> jsstring \<Rightarrow> jsstring option" where
  "ocr_loop [] fullText = Some fullText"
| "ocr_loop (Recognized text # pages) fullText = ocr_loop pages (fullText @ text @ [0x0A, 0x0A])"
| "ocr_loop (PageRejected # pages) fullText = None"

definition handlePdfUpload :: "App \<Rightarrow> page_result list option \<Rightarrow> App" where
  "handlePdfUpload st pdf =
     (case pdf of
        None \<Rightarrow> st
      | Some pages \<Rightarrow>
          (case ocr_loop pages [] of
             None \<Rightarrow> st
           | Some fullText \<Rightarrow>
               st\<lparr> workspace := (workspace st)
                     \<lparr> rawText := fullText,
                       metrics := (metrics (workspace st))
                         \<lparr> chars := length fullText, ocr_pages := length pages \<rparr> \<rparr>,
                   activeTab := Agents \<rparr>))"

definition handleFileChange :: "App \<Rightarrow> upload \<Rightarrow> App" where
  "handleFileChange st file =
     (case file of
        NoFile \<Rightarrow> st
      | PdfFile pdf \<Rightarrow> handlePdfUpload st pdf
      | TextFile None \<Rightarrow> st
      | TextFile (Some text) \<Rightarrow>
          st\<lparr> workspace := (workspace st)
                \<lparr> rawText := text,
                  metrics := (metrics (workspace st))
                    \<lparr> chars := length text, ocr_pages := 0 \<rparr> \<rparr>,
              activeTab := Agents \<rparr>)"

definition handleRawTextChange :: "App \<Rightarrow> jsstring \<Rightarrow> App" where
  "handleRawTextChange st newText =
     (let oldText = rawText (workspace st);
          st1 = st\<lparr> workspace := (workspace st)
                      \<lparr> rawText := newText,
                        metrics := (metrics (workspace st))\<lparr> chars := length newText \<rparr> \<rparr> \<rparr>
      in if activeTab st = Ingestion \<and> 200 < int (length newText) - int (length oldText)
         then st1\<lparr> activeTab := Agents \<rparr>
         else st1)"

text \<open>
  The texts of the pages joined with a blank line between them, as the specification
  words it; compared with what \<open>ocr_loop\<close> builds.
\<close>

fun join_blank_line :: "jsstring list \<Rightarrow> jsstring" where
  "join_blank_line [] = []"
| "join_blank_line [text] = text"
| "join_blank_line (text # texts) = text @ [0x0A, 0x0A] @ join_blank_line texts"

section \<open>Arithmetic on doubles\<close>

text \<open>
  The result of \<^verbatim>\<open>+\<close>, \<^verbatim>\<open>-\<close> and \<^verbatim>\<open>/\<close> on two doubles is the exact result rounded to the
  nearest double, to the one with the even significand on a tie. \<open>exponent2 n x\<close> finds,
  for a positive \<open>x\<close> and in at most \<open>n\<close> steps, the \<open>e\<close> with \<open>2 ^ e \<le> x < 2 ^ (e + 1)\<close>;
  below \<open>2 ^ - 1022\<close> the doubles are evenly spaced. A result beyond the largest double,
  which is \<^verbatim>\<open>Infinity\<close> in the source, is rounded like the others here: the numbers of a
  run are milliseconds and seconds.
\<close>

fun exponent2 :: "nat \<Rightarrow> real \<Rightarrow> int" where
  "exponent2 0 x = 0"
| "exponent2 (Suc n) x =
     (if 2 \<le> x then exponent2 n (x / 2) + 1
      else if x < 1 then exponent2 n (x * 2) - 1
      else 0)"

definition round_half_even :: "real \<Rightarrow> int" where
  "round_half_even y =
     (let n = \<lfloor>y\<rfloor>; r = y - of_int n in
      if r < 1 / 2 then n
      else if 1 / 2 < r then n + 1
      else if even n then n else n + 1)"

definition binary64 :: "real \<Rightarrow> real" where
  "binary64 x =
     (if x = 0 then 0
      else
        (let e = max (exponent2 1100 \<bar>x\<bar>) (- 1022);
             ulp = (if 52 \<le> e then 2 ^ nat (e - 52) else 1 / 2 ^ nat (52 - e))
         in of_int (round_half_even (x / ulp)) * ulp))"

definition js_add :: "real \<Rightarrow> real \<Rightarrow> real" where
  "js_add a b = binary64 (a + b)"

definition js_sub :: "real \<Rightarrow> real \<Rightarrow> real" where
  "js_sub a b = binary64 (a - b)"

definition js_div :: "real \<Rightarrow> real \<Rightarrow> real" where
  "js_div a b = binary64 (a / b)"

section \<open>Chain executor\<close>

text \<open>
  The outside world of a run. \<open>newClient\<close>: whether \<^verbatim>\<open>new GoogleGenAI(...)\<close> throws, and
  with which message. \<open>generateContent k req\<close>: what the \<open>k\<close>-th call of the run (counted
  from 0) answers to the request \<open>req\<close>: it resolves with a response whose \<^verbatim>\<open>text\<close> may
  be missing, or rejects with an error that has a message. \<open>now n\<close>: the \<open>n\<close>-th reading
  of \<^verbatim>\<open>performance.now()\<close> in the run, in milliseconds. \<open>typeErrorMessage\<close>: the engine's
  message for a \<^verbatim>\<open>TypeError\<close> raised while reading a property of \<^verbatim>\<open>undefined\<close>.
\<close>

record request =
  req_model :: jsval
  contents :: jsstring
  systemInstruction :: jsval
  temperature :: jsval
  maxOutputTokens :: jsval

datatype response = Resolved "jsstring option" | Rejected jsstring

record service =
  newClient :: "jsstring option"
  generateContent :: "nat \<Rightarrow> request \<Rightarrow> response"
  now :: "nat \<Rightarrow> real"
  typeErrorMessage :: jsstring

text \<open>
  \<^verbatim>\<open>x.toFixed(2)\<close>, as the number the string denotes: the multiple of 1/100 nearest to
  the exact value of the double \<open>x\<close>, the larger magnitude on a tie, and \<open>x\<close> itself
  from \<open>10^21\<close> on.
\<close>

definition toFixed2 :: "real \<Rightarrow> real" where
  "toFixed2 x =
     (if 10 ^ 21 \<le> \<bar>x\<bar> then x
      else if x < 0 then - (of_int \<lfloor>(- x) * 100 + 1 / 2\<rfloor> / 100)
      else of_int \<lfloor>x * 100 + 1 / 2\<rfloor> / 100)"

text \<open>
  \<^verbatim>\<open>agentConfig.params.<key>\<close>: a \<^verbatim>\<open>TypeError\<close> (\<open>None\<close>) when \<^verbatim>\<open>params\<close> is
  \<^verbatim>\<open>undefined\<close>, \<^verbatim>\<open>undefined\<close> when it is a string or a number.
\<close>

definition read_param :: "heap \<Rightarrow> jsval \<Rightarrow> jsstring \<Rightarrow> jsval option" where
  "read_param h params k =
     (case params of
        VObj p \<Rightarrow> Some (get_prop (h p) k)
      | VUndefined \<Rightarrow> None
      | _ \<Rightarrow> Some VUndefined)"

text \<open>The argument of \<^verbatim>\<open>ai.models.generateContent\<close> for one agent and the current input.\<close>

definition build_request :: "heap \<Rightarrow> addr \<Rightarrow> jsstring \<Rightarrow> request option" where
  "build_request h a currentInput =
     (let agentConfig = h a; params = get_prop agentConfig (js ''params'') in
      case read_param h params (js ''temperature'') of
        None \<Rightarrow> None
      | Some t \<Rightarrow>
          (case read_param h params (js ''maxOutputTokens'') of
             None \<Rightarrow> None
           | Some n \<Rightarrow>
               Some \<lparr> req_model = get_prop agentConfig (js ''model''),
                      contents = currentInput,
                      systemInstruction = get_prop agentConfig (js ''system_prompt''),
                      temperature = t,
                      maxOutputTokens = n \<rparr>))"

text \<open>
  The local variables of \<^verbatim>\<open>handleRunChain\<close>, with two counters that the source does not
  have: \<open>sent\<close>, the requests passed to \<^verbatim>\<open>generateContent\<close> so far, in order, and
  \<open>clock_reads\<close>, the number of readings of \<^verbatim>\<open>performance.now()\<close> so far.
\<close>

record chain_locals =
  currentInput :: jsstring
  totalLatency :: real
  newRunLog :: "RunLogEntry list"
  sent :: "request list"
  clock_reads :: nat

text \<open>
  One iteration of the \<^verbatim>\<open>for\<close> loop, on the workspace as updated so far. The first
  component is the message of the exception that leaves the iteration, if any.
\<close>

definition run_agent ::
  "service \<Rightarrow> heap \<Rightarrow> addr \<Rightarrow> WorkspaceState \<times> chain_locals
     \<Rightarrow> jsstring option \<times> WorkspaceState \<times> chain_locals" where
  "run_agent env h a wl =
     (let ws = fst wl; l = snd wl;
          startTime = now env (clock_reads l);
          l1 = l\<lparr> clock_reads := clock_reads l + 1 \<rparr>
      in case build_request h a (currentInput l) of
           None \<Rightarrow> (Some (typeErrorMessage env), ws, l1)
         | Some req \<Rightarrow>
             (let l2 = l1\<lparr> sent := sent l1 @ [req] \<rparr> in
              case generateContent env (length (sent l1)) req of
                Rejected msg \<Rightarrow> (Some msg, ws, l2)
              | Resolved text \<Rightarrow>
                  (let endTime = now env (clock_reads l2);
                       l3 = l2\<lparr> clock_reads := clock_reads l2 + 1 \<rparr>;
                       latency = js_div (js_sub endTime startTime) 1000;
                       l4 = l3\<lparr> totalLatency := js_add (totalLatency l3) latency \<rparr>;
                       outputText = (case text of None \<Rightarrow> [] | Some t \<Rightarrow> t);
                       logEntry = \<lparr> agentName = get_prop (h a) (js ''name''),
                                    model = get_prop (h a) (js ''model''),
                                    output = outputText,
                                    latency_fixed = toFixed2 latency \<rparr>;
                       l5 = l4\<lparr> newRunLog := newRunLog l4 @ [logEntry] \<rparr>;
                       ws1 = ws\<lparr> runLog := newRunLog l5 \<rparr>;
                       l6 = l5\<lparr> currentInput := outputText \<rparr>
                   in (None, ws1, l6))))"

text \<open>The loop over \<^verbatim>\<open>workspace.agentsRunConfig\<close>: an exception ends it.\<close>

fun run_agents ::
  "service \<Rightarrow> heap \<Rightarrow> addr list \<Rightarrow> WorkspaceState \<times> chain_locals
     \<Rightarrow> jsstring option \<times> WorkspaceState \<times> chain_locals" where
  "run_agents env h [] wl = (None, wl)"
| "run_agents env h (a # as) wl =
     (case run_agent env h a wl of
        (Some msg, wl') \<Rightarrow> (Some msg, wl')
      | (None, wl') \<Rightarrow> run_agents env h as wl')"

text \<open>
  On entry: \<^verbatim>\<open>setWorkspace(prev => ({...prev, isRunning: true, error: null, runLog: []}))\<close>
  and the three \<^verbatim>\<open>let\<close>/\<^verbatim>\<open>const\<close> declarations.
\<close>

definition start_run :: "WorkspaceState \<Rightarrow> WorkspaceState" where
  "start_run ws = ws\<lparr> isRunning := True, error := None, runLog := [] \<rparr>"

definition init_locals :: "jsstring \<Rightarrow> chain_locals" where
  "init_locals baseInput =
     \<lparr> currentInput = baseInput, totalLatency = 0, newRunLog = [],
       sent = [], clock_reads = 0 \<rparr>"

text \<open>
  \<^verbatim>\<open>handleRunChain(baseInput)\<close>: the entry update, the \<^verbatim>\<open>try\<close> block (the client, then
  the loop over the run configuration of the state the handler was created in), the
  \<^verbatim>\<open>catch\<close> block and the \<^verbatim>\<open>finally\<close> block. The result is the state after the run and
  the requests that were sent.
\<close>

definition handleRunChain :: "service \<Rightarrow> App \<Rightarrow> jsstring \<Rightarrow> App \<times> request list" where
  "handleRunChain env st baseInput =
     (let ws0 = start_run (workspace st);
          l0 = init_locals baseInput;
          tried = (case newClient env of
                     Some msg \<Rightarrow> (Some msg, ws0, l0)
                   | None \<Rightarrow>
                       run_agents env (heap st) (agentsRunConfig (workspace st)) (ws0, l0));
          caught = fst tried; ws1 = fst (snd tried); l1 = snd (snd tried);
          ws2 = (case caught of None \<Rightarrow> ws1 | Some msg \<Rightarrow> ws1\<lparr> error := Some msg \<rparr>);
          ws3 = ws2\<lparr> isRunning := False,
                     metrics := (metrics ws2)\<lparr> agents_run := length (newRunLog l1),
                                              latency := totalLatency l1 \<rparr> \<rparr>
      in (st\<lparr> workspace := ws3 \<rparr>, sent l1))"

section \<open>Properties named by the claims\<close>

text \<open>The character count agrees with the text.\<close>

definition chars_ok :: "App \<Rightarrow> bool" where
  "chars_ok st = (chars (metrics (workspace st)) = length (rawText (workspace st)))"

text \<open>
  The elapsed seconds of step \<open>k\<close> (counted from 0) of a run in which every step before
  it completed: each completed step reads the clock twice.
\<close>

definition step_latency :: "service \<Rightarrow> nat \<Rightarrow> real" where
  "step_latency env k = js_div (js_sub (now env (2 * k + 1)) (now env (2 * k))) 1000"

section \<open>Invariant of the loop\<close>

text \<open>
  The input of step \<open>k\<close> (counted from 0) given what the run log records: the initial
  input for the first step, the recorded output of the step before for the others.
\<close>

definition handoff_input :: "jsstring \<Rightarrow> RunLogEntry list \<Rightarrow> nat \<Rightarrow> jsstring" where
  "handoff_input baseInput entries k = (if k = 0 then baseInput else output (entries ! (k - 1)))"

text \<open>The loop of a run cut after its first \<open>j\<close> agents.\<close>

definition run_prefix ::
  "service \<Rightarrow> App \<Rightarrow> jsstring \<Rightarrow> nat \<Rightarrow> jsstring option \<times> WorkspaceState \<times> chain_locals" where
  "run_prefix env st baseInput j =
     run_agents env (heap st) (take j (agentsRunConfig (workspace st)))
       (start_run (workspace st), init_locals baseInput)"

text \<open>
  What holds of the workspace and the locals whenever the loop is left, by completion
  or by an exception (\<open>inv_any\<close>), and what holds in addition between two iterations
  (\<open>inv_ok\<close>).
\<close>

definition inv_any :: "service \<Rightarrow> heap \<Rightarrow> jsstring \<Rightarrow> addr list \<Rightarrow> WorkspaceState \<times> chain_locals \<Rightarrow> bool" where
  "inv_any env h baseInput cfg wl =
     (let ws = fst wl; l = snd wl; n = length (newRunLog l) in
      runLog ws = newRunLog l
      \<and> n \<le> length (sent l) \<and> length (sent l) \<le> Suc n \<and> length (sent l) \<le> length cfg
      \<and> n \<le> length cfg
      \<and> totalLatency l = foldl js_add 0 (map (step_latency env) [0..<n])
      \<and> map latency_fixed (newRunLog l) = map (\<lambda>k. toFixed2 (step_latency env k)) [0..<n]
      \<and> (\<forall>k<length (sent l).
            build_request h (cfg ! k) (handoff_input baseInput (newRunLog l) k) = Some (sent l ! k)))"

definition inv_ok :: "service \<Rightarrow> heap \<Rightarrow> jsstring \<Rightarrow> addr list \<Rightarrow> WorkspaceState \<times> chain_locals \<Rightarrow> bool" where
  "inv_ok env h baseInput cfg wl =
     (let l = snd wl; n = length (newRunLog l) in
      inv_any env h baseInput cfg wl
      \<and> length (sent l) = n
      \<and> clock_reads l = 2 * n
      \<and> currentInput l = handoff_input baseInput (newRunLog l) n)"


section \<open>Two services to run the chain against\<close>

text \<open>
  A service that answers every request: the input followed by an exclamation mark, except
  for the third call, whose response has no text. The clock advances by 1003.90625 ms
  from one reading to the next, so every step takes 257/256 s, a number that binary64
  holds exactly.
\<close>

definition example_service :: service where
  "example_service =
     \<lparr> newClient = None,
       generateContent = (\<lambda>k req. if k = 2 then Resolved None
                                   else Resolved (Some (contents req @ js ''!''))),
       now = (\<lambda>n. 32125 / 32 * real n),
       typeErrorMessage = js ''Cannot read properties of undefined'' \<rparr>"

text \<open>The same service, except that its second call is rejected.\<close>

definition failing_service :: service where
  "failing_service =
     example_service\<lparr> generateContent :=
       (\<lambda>k req. if k = 1 then Rejected (js ''Failed to fetch'')
                 else Resolved (Some (contents req @ js ''!''))) \<rparr>"

text \<open>The same service, except that its second call is rejected with an empty message.\<close>

definition empty_message_service :: service where
  "empty_message_service =
     example_service\<lparr> generateContent :=
       (\<lambda>k req. if k = 1 then Rejected []
                 else Resolved (Some (contents req @ js ''!''))) \<rparr>"

section \<open>Facts about the embedding\<close>

lemma of_char_less_256: "(of_char c :: nat) < 256"
proof -
  have "(of_char c :: nat) mod 256 < 256" by simp
  then show ?thesis by (simp only: of_char_mod_256)
qed

lemma js_char_inj:
  "(word_of_nat (of_char c) :: 16 word) = word_of_nat (of_char d) \<longleftrightarrow> c = d"
proof
  assume h: "(word_of_nat (of_char c) :: 16 word) = word_of_nat (of_char d)"
  have c: "(of_char c :: nat) < 2 ^ 16"
    using of_char_less_256 [of c] by (rule less_le_trans) simp
  have d: "(of_char d :: nat) < 2 ^ 16"
    using of_char_less_256 [of d] by (rule less_le_trans) simp
  from h have "unat (word_of_nat (of_char c) :: 16 word)
      = unat (word_of_nat (of_char d) :: 16 word)"
    by simp
  then have "(of_char c :: nat) = of_char d"
    using c d by (simp add: unat_of_nat)
  then show "c = d" by simp
qed simp

lemma js_inj: "js a = js b \<longleftrightarrow> a = b"
  unfolding js_def
  by (rule inj_map_eq_map) (simp add: inj_on_def js_char_inj)

lemma startsWith_model: "startsWith (js ''model'') (js ''params.'') = False"
  by (simp add: js_def)

lemma startsWith_temperature: "startsWith (js ''params.temperature'') (js ''params.'') = True"
  by (simp add: js_def)

lemma paramKey_temperature: "paramKey_of (js ''params.temperature'') = js ''temperature''"
  by (simp add: paramKey_of_def js_def)

lemma ocr_loop_Recognized:
  "ocr_loop (map Recognized texts) fullText
     = Some (fullText @ concat (map (\<lambda>t. t @ [0x0A, 0x0A]) texts))"
  by (induction texts arbitrary: fullText) simp_all

lemma join_blank_line_concat:
  "texts \<noteq> [] \<Longrightarrow>
     concat (map (\<lambda>t. t @ [0x0A, 0x0A]) texts) = join_blank_line texts @ [0x0A, 0x0A]"
  by (induction texts rule: join_blank_line.induct) simp_all

lemma handoff_input_append:
  "k \<le> length es \<Longrightarrow> handoff_input b (es @ [e]) k = handoff_input b es k"
  by (auto simp add: handoff_input_def nth_append)

lemma handoff_input_last:
  "handoff_input b (es @ [e]) (Suc (length es)) = output e"
  by (simp add: handoff_input_def)

lemma run_agent_cases:
  assumes "run_agent env h a (ws, l) = (c, ws', l')"
  obtains
    (type_error) "build_request h a (currentInput l) = None"
      "c = Some (typeErrorMessage env)" "ws' = ws"
      "l' = l\<lparr> clock_reads := Suc (clock_reads l) \<rparr>"
  | (rejected) req msg where "build_request h a (currentInput l) = Some req"
      "generateContent env (length (sent l)) req = Rejected msg"
      "c = Some msg" "ws' = ws"
      "l' = l\<lparr> clock_reads := Suc (clock_reads l), sent := sent l @ [req] \<rparr>"
  | (resolved) req answer e where "build_request h a (currentInput l) = Some req"
      "generateContent env (length (sent l)) req = Resolved answer"
      "c = None"
      "e = \<lparr> agentName = get_prop (h a) (js ''name''),
             model = get_prop (h a) (js ''model''),
             output = (case answer of None \<Rightarrow> [] | Some t \<Rightarrow> t),
             latency_fixed
               = toFixed2 (js_div (js_sub (now env (Suc (clock_reads l)))
                                          (now env (clock_reads l))) 1000) \<rparr>"
      "ws' = ws\<lparr> runLog := newRunLog l @ [e] \<rparr>"
      "l' = l\<lparr> clock_reads := Suc (Suc (clock_reads l)), sent := sent l @ [req],
               totalLatency := js_add (totalLatency l)
                 (js_div (js_sub (now env (Suc (clock_reads l)))
                                 (now env (clock_reads l))) 1000),
               newRunLog := newRunLog l @ [e], currentInput := output e \<rparr>"
proof (cases "build_request h a (currentInput l)")
  case None
  with assms type_error show ?thesis
    by (simp add: run_agent_def Let_def)
next
  case (Some req)
  show ?thesis
  proof (cases "generateContent env (length (sent l)) req")
    case (Rejected msg)
    with Some assms rejected show ?thesis
      by (simp add: run_agent_def Let_def)
  next
    case (Resolved answer)
    with Some assms resolved [of req answer, OF _ _ _ refl] show ?thesis
      by (auto simp add: run_agent_def Let_def)
  qed
qed

lemma run_agents_append:
  "run_agents env h (xs @ ys) wl =
     (case run_agents env h xs wl of
        (Some msg, wl') \<Rightarrow> (Some msg, wl')
      | (None, wl') \<Rightarrow> run_agents env h ys wl')"
  by (induction xs arbitrary: wl) (auto split: prod.splits option.splits)


lemma run_agent_inv:
  assumes ok: "inv_ok env h b cfg (ws, l)"
    and lt: "length (newRunLog l) < length cfg"
    and a: "a = cfg ! length (newRunLog l)"
    and run: "run_agent env h a (ws, l) = (c, ws', l')"
  shows "inv_any env h b cfg (ws', l')
    \<and> (c = None \<longrightarrow> inv_ok env h b cfg (ws', l')
          \<and> length (newRunLog l') = Suc (length (newRunLog l)))
    \<and> (c \<noteq> None \<longrightarrow> newRunLog l' = newRunLog l)
    \<and> ws' = ws\<lparr> runLog := newRunLog l' \<rparr>"
  using run
proof (cases rule: run_agent_cases)
  case type_error
  with ok lt show ?thesis
    by (simp add: inv_ok_def inv_any_def Let_def)
next
  case (rejected req msg)
  with ok lt a show ?thesis
    by (auto simp add: inv_ok_def inv_any_def Let_def nth_append less_Suc_eq)
next
  case (resolved req answer e)
  have any: "inv_any env h b cfg (ws', l')"
    using ok lt a resolved
    by (auto simp add: inv_ok_def inv_any_def Let_def nth_append less_Suc_eq
        handoff_input_append step_latency_def)
  have "inv_ok env h b cfg (ws', l')"
    using any ok resolved
    by (simp add: inv_ok_def Let_def handoff_input_last)
  with any resolved show ?thesis by simp
qed

lemma init_ok: "inv_ok env h b cfg (start_run ws, init_locals b)"
  by (simp add: inv_ok_def inv_any_def start_run_def init_locals_def handoff_input_def)

lemma inv_ok_any: "inv_ok env h b cfg wl \<Longrightarrow> inv_any env h b cfg wl"
  by (simp add: inv_ok_def Let_def)

lemma run_agents_inv:
  assumes "inv_ok env h b cfg (ws, l)"
    and "as = drop (length (newRunLog l)) cfg"
    and "run_agents env h as (ws, l) = (c, ws', l')"
  shows "inv_any env h b cfg (ws', l')
    \<and> (c = None \<longrightarrow> inv_ok env h b cfg (ws', l') \<and> length (newRunLog l') = length cfg)
    \<and> (c \<noteq> None \<longrightarrow> length (newRunLog l') < length cfg)
    \<and> ws' = ws\<lparr> runLog := newRunLog l' \<rparr>"
  using assms
proof (induction as arbitrary: ws l)
  case Nil
  then have "length cfg \<le> length (newRunLog l)" by simp
  moreover from Nil have "length (newRunLog l) \<le> length cfg" "runLog ws = newRunLog l"
    by (simp_all add: inv_ok_def inv_any_def Let_def)
  ultimately show ?case using Nil inv_ok_any [OF Nil.prems(1)] by simp
next
  case (Cons a as)
  let ?n = "length (newRunLog l)"
  from Cons.prems(2) have lt: "?n < length cfg"
    by (metis drop_all list.distinct(1) not_le)
  with Cons.prems(2) have a: "a = cfg ! ?n" and as: "as = drop (Suc ?n) cfg"
    by (simp_all add: Cons_nth_drop_Suc [symmetric])
  obtain c1 ws1 l1 where step: "run_agent env h a (ws, l) = (c1, ws1, l1)"
    by (metis prod_cases3)
  note inv = run_agent_inv [OF Cons.prems(1) lt a step]
  show ?case
  proof (cases c1)
    case (Some msg)
    with step Cons.prems(3) have eqs: "c = Some msg" "ws' = ws1" "l' = l1" by simp_all
    from Some have ne: "c1 \<noteq> None" by simp
    from inv ne have "inv_any env h b cfg (ws1, l1)"
      and same: "newRunLog l1 = newRunLog l"
      and "ws1 = ws\<lparr> runLog := newRunLog l1 \<rparr>"
      by blast+
    moreover from same lt have "length (newRunLog l1) < length cfg" by simp
    ultimately show ?thesis unfolding eqs by blast
  next
    case None
    with step Cons.prems(3) have rest: "run_agents env h as (ws1, l1) = (c, ws', l')"
      by simp
    from inv None have ok1: "inv_ok env h b cfg (ws1, l1)"
      and len1: "length (newRunLog l1) = Suc ?n"
      and ws1: "ws1 = ws\<lparr> runLog := newRunLog l1 \<rparr>"
      by blast+
    from as len1 have "as = drop (length (newRunLog l1)) cfg" by simp
    from Cons.IH [OF ok1 this rest]
    have ih: "inv_any env h b cfg (ws', l')
      \<and> (c = None \<longrightarrow> inv_ok env h b cfg (ws', l') \<and> length (newRunLog l') = length cfg)
      \<and> (c \<noteq> None \<longrightarrow> length (newRunLog l') < length cfg)
      \<and> ws' = ws1\<lparr> runLog := newRunLog l' \<rparr>" .
    from ih have e: "ws' = ws1\<lparr> runLog := newRunLog l' \<rparr>" by blast
    have "ws1\<lparr> runLog := newRunLog l' \<rparr> = ws\<lparr> runLog := newRunLog l' \<rparr>"
      by (subst ws1) simp
    with e have "ws' = ws\<lparr> runLog := newRunLog l' \<rparr>" by (rule trans)
    with ih show ?thesis by blast
  qed
qed

lemma build_request_contents:
  "build_request h a input = Some req \<Longrightarrow> contents req = input"
  by (auto simp add: build_request_def Let_def split: option.splits)

lemma toFixed2_near: "\<bar>toFixed2 x - x\<bar> \<le> 1 / 200"
proof -
  have r: "\<bar>of_int \<lfloor>y * 100 + 1 / 2\<rfloor> / 100 - y\<bar> \<le> 1 / 200" for y :: real
  proof -
    define z :: real where "z = of_int \<lfloor>y * 100 + 1 / 2\<rfloor>"
    have "z \<le> y * 100 + 1 / 2" and "y * 100 + 1 / 2 < z + 1"
      unfolding z_def by linarith+
    then have "z / 100 - y \<le> 1 / 200" and "- (z / 100 - y) \<le> 1 / 200"
      by linarith+
    then have "\<bar>z / 100 - y\<bar> \<le> 1 / 200"
      by (rule abs_leI)
    then show ?thesis unfolding z_def .
  qed
  show ?thesis
  proof (cases "10 ^ 21 \<le> \<bar>x\<bar>")
    case True
    then show ?thesis by (simp add: toFixed2_def)
  next
    case False
    show ?thesis
    proof (cases "x < 0")
      case True
      have "\<bar>- (of_int \<lfloor>(- x) * 100 + 1 / 2\<rfloor> / 100) - x\<bar>
          = \<bar>of_int \<lfloor>(- x) * 100 + 1 / 2\<rfloor> / 100 - (- x)\<bar>"
        by (simp add: abs_minus_commute)
      with r [of "- x"] True False show ?thesis by (simp add: toFixed2_def)
    next
      case False
      with r [of x] \<open>\<not> 10 ^ 21 \<le> \<bar>x\<bar>\<close> show ?thesis by (simp add: toFixed2_def)
    qed
  qed
qed

lemma handleRunChain_unfold:
  assumes "newClient env = None"
    and "run_agents env (heap st) (agentsRunConfig (workspace st))
           (start_run (workspace st), init_locals b) = (c, ws', l')"
  shows "handleRunChain env st b =
     (st\<lparr> workspace :=
          (case c of None \<Rightarrow> ws' | Some msg \<Rightarrow> ws'\<lparr> error := Some msg \<rparr>)
            \<lparr> isRunning := False,
              metrics := (metrics ws')\<lparr> agents_run := length (newRunLog l'),
                                        latency := totalLatency l' \<rparr> \<rparr> \<rparr>,
      sent l')"
  using assms by (simp add: handleRunChain_def Let_def split: option.splits)

lemma handleRunChain_no_client:
  assumes "newClient env = Some msg"
  shows "handleRunChain env st b =
     (st\<lparr> workspace := (start_run (workspace st))
            \<lparr> error := Some msg, isRunning := False,
              metrics := (metrics (workspace st))\<lparr> agents_run := 0, latency := 0 \<rparr> \<rparr> \<rparr>,
      [])"
  using assms by (simp add: handleRunChain_def Let_def start_run_def init_locals_def)

lemma run_agent_eq:
  "run_agent env h a (ws, l) =
     (case build_request h a (currentInput l) of
        None \<Rightarrow> (Some (typeErrorMessage env), ws, l\<lparr> clock_reads := clock_reads l + 1 \<rparr>)
      | Some req \<Rightarrow>
          (case generateContent env (length (sent l)) req of
             Rejected msg \<Rightarrow>
               (Some msg, ws, l\<lparr> clock_reads := clock_reads l + 1, sent := sent l @ [req] \<rparr>)
           | Resolved answer \<Rightarrow>
               (None,
                ws\<lparr> runLog := newRunLog l @
                  [\<lparr> agentName = get_prop (h a) (js ''name''),
                     model = get_prop (h a) (js ''model''),
                     output = (case answer of None \<Rightarrow> [] | Some t \<Rightarrow> t),
                     latency_fixed = toFixed2
                       (js_div (js_sub (now env (clock_reads l + 1))
                                       (now env (clock_reads l))) 1000) \<rparr>] \<rparr>,
                \<lparr> currentInput = (case answer of None \<Rightarrow> [] | Some t \<Rightarrow> t),
                  totalLatency = js_add (totalLatency l)
                    (js_div (js_sub (now env (clock_reads l + 1))
                                    (now env (clock_reads l))) 1000),
                  newRunLog = newRunLog l @
                  [\<lparr> agentName = get_prop (h a) (js ''name''),
                     model = get_prop (h a) (js ''model''),
                     output = (case answer of None \<Rightarrow> [] | Some t \<Rightarrow> t),
                     latency_fixed = toFixed2
                       (js_div (js_sub (now env (clock_reads l + 1))
                                       (now env (clock_reads l))) 1000) \<rparr>],
                  sent = sent l @ [req],
                  clock_reads = clock_reads l + 2 \<rparr>)))"
  by (simp add: run_agent_def Let_def split: option.splits response.splits)

lemma build_request_initial:
  "build_request initialHeap 0 x =
     Some \<lparr> req_model = VStr (js ''gemini-2.5-flash''), contents = x,
            systemInstruction = VStr system_prompt_RequirementExtractor,
            temperature = VNum (2 / 10), maxOutputTokens = VNum 2000 \<rparr>"
  "build_request initialHeap 2 x =
     Some \<lparr> req_model = VStr (js ''gemini-2.5-pro''), contents = x,
            systemInstruction = VStr system_prompt_GapAnalyzer,
            temperature = VNum (2 / 10), maxOutputTokens = VNum 2000 \<rparr>"
  "build_request initialHeap 4 x =
     Some \<lparr> req_model = VStr (js ''gemini-2.5-flash''), contents = x,
            systemInstruction = VStr system_prompt_EvidenceMapper,
            temperature = VNum (2 / 10), maxOutputTokens = VNum 1800 \<rparr>"
  "build_request initialHeap 6 x =
     Some \<lparr> req_model = VStr (js ''gemini-2.5-flash''), contents = x,
            systemInstruction = VStr system_prompt_ChecklistFormatter,
            temperature = VNum (1 / 10), maxOutputTokens = VNum 2200 \<rparr>"
  by (simp_all add: build_request_def read_param_def get_prop_def initialHeap_def
      agent_object_def params_object_def js_inj Let_def)

lemma initial_names:
  "get_prop (initialHeap 0) (js ''name'') = VStr (js ''RequirementExtractor'')"
  "get_prop (initialHeap 2) (js ''name'') = VStr (js ''GapAnalyzer'')"
  "get_prop (initialHeap 4) (js ''name'') = VStr (js ''EvidenceMapper'')"
  "get_prop (initialHeap 6) (js ''name'') = VStr (js ''ChecklistFormatter'')"
  "get_prop (initialHeap 0) (js ''model'') = VStr (js ''gemini-2.5-flash'')"
  "get_prop (initialHeap 2) (js ''model'') = VStr (js ''gemini-2.5-pro'')"
  "get_prop (initialHeap 4) (js ''model'') = VStr (js ''gemini-2.5-flash'')"
  "get_prop (initialHeap 6) (js ''model'') = VStr (js ''gemini-2.5-flash'')"
  by (simp_all add: get_prop_def initialHeap_def agent_object_def js_inj)

lemma exponent2_unfold:
  "exponent2 n x =
     (if n = 0 then 0
      else if 2 \<le> x then exponent2 (n - 1) (x / 2) + 1
      else if x < 1 then exponent2 (n - 1) (x * 2) - 1
      else 0)"
  by (cases n) simp_all

lemma binary64_examples:
  "binary64 (32125 / 32) = 32125 / 32"
  "binary64 (257 / 256) = 257 / 256"
  "binary64 (257 / 128) = 257 / 128"
  "binary64 (771 / 256) = 771 / 256"
  "binary64 (257 / 64) = 257 / 64"
  by (simp_all add: binary64_def exponent2_unfold round_half_even_def Let_def)

lemma toFixed2_example: "toFixed2 (257 / 256) = 1"
  by (simp add: toFixed2_def)

lemma js_append: "js a @ js b = js (a @ b)"
  by (simp add: js_def)

lemma run_result:
  assumes run: "run_agents env (heap st) (agentsRunConfig (workspace st))
           (start_run (workspace st), init_locals b) = (c, ws', l')"
  shows "inv_any env (heap st) b (agentsRunConfig (workspace st)) (ws', l')"
    and "c = None \<Longrightarrow> inv_ok env (heap st) b (agentsRunConfig (workspace st)) (ws', l')"
    and "c = None \<Longrightarrow> length (newRunLog l') = length (agentsRunConfig (workspace st))"
    and "ws' = (start_run (workspace st))\<lparr> runLog := newRunLog l' \<rparr>"
proof -
  have d: "agentsRunConfig (workspace st)
      = drop (length (newRunLog (init_locals b))) (agentsRunConfig (workspace st))"
    by (simp add: init_locals_def)
  note all = run_agents_inv [OF init_ok d run]
  from all show "inv_any env (heap st) b (agentsRunConfig (workspace st)) (ws', l')"
    by blast
  from all show "c = None \<Longrightarrow> inv_ok env (heap st) b (agentsRunConfig (workspace st)) (ws', l')"
    by blast
  from all show "c = None \<Longrightarrow> length (newRunLog l') = length (agentsRunConfig (workspace st))"
    by blast
  from all show "ws' = (start_run (workspace st))\<lparr> runLog := newRunLog l' \<rparr>"
    by blast
qed

lemma example_run:
  "handleRunChain example_service initialApp (js ''go'') =
     (initialApp\<lparr> workspace := (workspace initialApp)
        \<lparr> runLog :=
            [\<lparr> agentName = VStr (js ''RequirementExtractor''),
               model = VStr (js ''gemini-2.5-flash''),
               output = js ''go!'', latency_fixed = 1 \<rparr>,
             \<lparr> agentName = VStr (js ''GapAnalyzer''),
               model = VStr (js ''gemini-2.5-pro''),
               output = js ''go!!'', latency_fixed = 1 \<rparr>,
             \<lparr> agentName = VStr (js ''EvidenceMapper''),
               model = VStr (js ''gemini-2.5-flash''),
               output = [], latency_fixed = 1 \<rparr>,
             \<lparr> agentName = VStr (js ''ChecklistFormatter''),
               model = VStr (js ''gemini-2.5-flash''),
               output = js ''!'', latency_fixed = 1 \<rparr>],
          metrics := (metrics (workspace initialApp))
            \<lparr> agents_run := 4, latency := 257 / 64 \<rparr> \<rparr> \<rparr>,
      [\<lparr> req_model = VStr (js ''gemini-2.5-flash''), contents = js ''go'',
         systemInstruction = VStr system_prompt_RequirementExtractor,
         temperature = VNum (2 / 10), maxOutputTokens = VNum 2000 \<rparr>,
       \<lparr> req_model = VStr (js ''gemini-2.5-pro''), contents = js ''go!'',
         systemInstruction = VStr system_prompt_GapAnalyzer,
         temperature = VNum (2 / 10), maxOutputTokens = VNum 2000 \<rparr>,
       \<lparr> req_model = VStr (js ''gemini-2.5-flash''), contents = js ''go!!'',
         systemInstruction = VStr system_prompt_EvidenceMapper,
         temperature = VNum (2 / 10), maxOutputTokens = VNum 1800 \<rparr>,
       \<lparr> req_model = VStr (js ''gemini-2.5-flash''), contents = [],
         systemInstruction = VStr system_prompt_ChecklistFormatter,
         temperature = VNum (1 / 10), maxOutputTokens = VNum 2200 \<rparr>])"
proof -
  have "run_agents example_service initialHeap initialAgents
      (start_run (workspace initialApp), init_locals (js ''go'')) =
    (None,
     (start_run (workspace initialApp))
       \<lparr> runLog :=
            [\<lparr> agentName = VStr (js ''RequirementExtractor''),
               model = VStr (js ''gemini-2.5-flash''),
               output = js ''go!'', latency_fixed = 1 \<rparr>,
             \<lparr> agentName = VStr (js ''GapAnalyzer''),
               model = VStr (js ''gemini-2.5-pro''),
               output = js ''go!!'', latency_fixed = 1 \<rparr>,
             \<lparr> agentName = VStr (js ''EvidenceMapper''),
               model = VStr (js ''gemini-2.5-flash''),
               output = [], latency_fixed = 1 \<rparr>,
             \<lparr> agentName = VStr (js ''ChecklistFormatter''),
               model = VStr (js ''gemini-2.5-flash''),
               output = js ''!'', latency_fixed = 1 \<rparr>] \<rparr>,
     \<lparr> currentInput = js ''!'', totalLatency = 257 / 64,
       newRunLog =
            [\<lparr> agentName = VStr (js ''RequirementExtractor''),
               model = VStr (js ''gemini-2.5-flash''),
               output = js ''go!'', latency_fixed = 1 \<rparr>,
             \<lparr> agentName = VStr (js ''GapAnalyzer''),
               model = VStr (js ''gemini-2.5-pro''),
               output = js ''go!!'', latency_fixed = 1 \<rparr>,
             \<lparr> agentName = VStr (js ''EvidenceMapper''),
               model = VStr (js ''gemini-2.5-flash''),
               output = [], latency_fixed = 1 \<rparr>,
             \<lparr> agentName = VStr (js ''ChecklistFormatter''),
               model = VStr (js ''gemini-2.5-flash''),
               output = js ''!'', latency_fixed = 1 \<rparr>],
       sent =
      [\<lparr> req_model = VStr (js ''gemini-2.5-flash''), contents = js ''go'',
         systemInstruction = VStr system_prompt_RequirementExtractor,
         temperature = VNum (2 / 10), maxOutputTokens = VNum 2000 \<rparr>,
       \<lparr> req_model = VStr (js ''gemini-2.5-pro''), contents = js ''go!'',
         systemInstruction = VStr system_prompt_GapAnalyzer,
         temperature = VNum (2 / 10), maxOutputTokens = VNum 2000 \<rparr>,
       \<lparr> req_model = VStr (js ''gemini-2.5-flash''), contents = js ''go!!'',
         systemInstruction = VStr system_prompt_EvidenceMapper,
         temperature = VNum (2 / 10), maxOutputTokens = VNum 1800 \<rparr>,
       \<lparr> req_model = VStr (js ''gemini-2.5-flash''), contents = [],
         systemInstruction = VStr system_prompt_ChecklistFormatter,
         temperature = VNum (1 / 10), maxOutputTokens = VNum 2200 \<rparr>],
       clock_reads = 8 \<rparr>)"
    by (simp add: run_agent_eq build_request_initial initial_names initialAgents_def
        example_service_def init_locals_def start_run_def toFixed2_example js_append js_add_def js_sub_def
        js_div_def binary64_examples)
  moreover have "newClient example_service = None"
    by (simp add: example_service_def)
  ultimately show ?thesis
    by (simp add: handleRunChain_unfold [where c = None] initialApp_def start_run_def)
qed


lemma initialApp_sel:
  "heap initialApp = initialHeap"
  "agentsRunConfig (workspace initialApp) = initialAgents"
  "runLog (workspace initialApp) = []"
  "error (workspace initialApp) = None"
  "isRunning (workspace initialApp) = False"
  "metrics (workspace initialApp)
     = \<lparr> ocr_pages = 0, chars = length initialGuidanceText, agents_run = 0, latency = 0 \<rparr>"
  by (simp_all add: initialApp_def)

lemma failing_prefix:
  "run_prefix failing_service initialApp (js ''go'') (Suc 0) =
     (None,
      (start_run (workspace initialApp))
        \<lparr> runLog :=
            [\<lparr> agentName = VStr (js ''RequirementExtractor''),
               model = VStr (js ''gemini-2.5-flash''),
               output = js ''go!'', latency_fixed = 1 \<rparr>] \<rparr>,
      \<lparr> currentInput = js ''go!'', totalLatency = 257 / 256,
        newRunLog =
            [\<lparr> agentName = VStr (js ''RequirementExtractor''),
               model = VStr (js ''gemini-2.5-flash''),
               output = js ''go!'', latency_fixed = 1 \<rparr>],
        sent =
            [\<lparr> req_model = VStr (js ''gemini-2.5-flash''), contents = js ''go'',
               systemInstruction = VStr system_prompt_RequirementExtractor,
               temperature = VNum (2 / 10), maxOutputTokens = VNum 2000 \<rparr>],
        clock_reads = 2 \<rparr>)"
  by (simp add: run_prefix_def initialApp_def run_agent_eq build_request_initial
      initial_names initialAgents_def failing_service_def example_service_def
      init_locals_def start_run_def toFixed2_example js_append js_add_def js_sub_def
        js_div_def binary64_examples)

lemma empty_message_run:
  "handleRunChain empty_message_service initialApp (js ''go'') =
     (initialApp\<lparr> workspace := (workspace initialApp)
        \<lparr> runLog :=
            [\<lparr> agentName = VStr (js ''RequirementExtractor''),
               model = VStr (js ''gemini-2.5-flash''),
               output = js ''go!'', latency_fixed = 1 \<rparr>],
          error := Some [],
          metrics := (metrics (workspace initialApp))
            \<lparr> agents_run := 1, latency := 257 / 256 \<rparr> \<rparr> \<rparr>,
      [\<lparr> req_model = VStr (js ''gemini-2.5-flash''), contents = js ''go'',
         systemInstruction = VStr system_prompt_RequirementExtractor,
         temperature = VNum (2 / 10), maxOutputTokens = VNum 2000 \<rparr>,
       \<lparr> req_model = VStr (js ''gemini-2.5-pro''), contents = js ''go!'',
         systemInstruction = VStr system_prompt_GapAnalyzer,
         temperature = VNum (2 / 10), maxOutputTokens = VNum 2000 \<rparr>])"
proof -
  have "run_agents empty_message_service initialHeap initialAgents
      (start_run (workspace initialApp), init_locals (js ''go'')) =
    (Some [],
     (start_run (workspace initialApp))
       \<lparr> runLog :=
            [\<lparr> agentName = VStr (js ''RequirementExtractor''),
               model = VStr (js ''gemini-2.5-flash''),
               output = js ''go!'', latency_fixed = 1 \<rparr>] \<rparr>,
     \<lparr> currentInput = js ''go!'', totalLatency = 257 / 256,
       newRunLog =
            [\<lparr> agentName = VStr (js ''RequirementExtractor''),
               model = VStr (js ''gemini-2.5-flash''),
               output = js ''go!'', latency_fixed = 1 \<rparr>],
       sent =
      [\<lparr> req_model = VStr (js ''gemini-2.5-flash''), contents = js ''go'',
         systemInstruction = VStr system_prompt_RequirementExtractor,
         temperature = VNum (2 / 10), maxOutputTokens = VNum 2000 \<rparr>,
       \<lparr> req_model = VStr (js ''gemini-2.5-pro''), contents = js ''go!'',
         systemInstruction = VStr system_prompt_GapAnalyzer,
         temperature = VNum (2 / 10), maxOutputTokens = VNum 2000 \<rparr>],
       clock_reads = 3 \<rparr>)"
    by (simp add: run_agent_eq build_request_initial initial_names initialAgents_def
        empty_message_service_def example_service_def init_locals_def start_run_def
        toFixed2_example js_append js_add_def js_sub_def js_div_def binary64_examples)
  moreover have "newClient empty_message_service = None"
    by (simp add: empty_message_service_def example_service_def)
  ultimately show ?thesis
    by (simp add: handleRunChain_unfold [where c = "Some []"] initialApp_def start_run_def)
qed

section \<open>The claims\<close>

text \<open>
  C1. The claim: no edit made through \<open>handleRunConfigChange\<close> changes a field of a base
  agent definition. The code does not keep it: in the initial state \<open>agents\<close> and
  \<open>agentsRunConfig\<close> hold the same objects, the handler copies the array only, and its
  assignment writes into the shared object. Choosing another model for the first agent,
  or another temperature, changes the first base agent as well.
\<close>

theorem C1_edit_reaches_base_agent:
  "agents (workspace initialApp) = agentsRunConfig (workspace initialApp)
   \<and> get_prop (heap initialApp (agents (workspace initialApp) ! 0)) (js ''model'')
       = VStr (js ''gemini-2.5-flash'')
   \<and> fst (handleRunConfigChange initialApp 0 (js ''model'') (VStr (js ''gemini-2.5-pro'')))
       = Returned
   \<and> agents (workspace (snd (handleRunConfigChange initialApp 0 (js ''model'')
                                 (VStr (js ''gemini-2.5-pro'')))))
       = agents (workspace initialApp)
   \<and> get_prop (heap (snd (handleRunConfigChange initialApp 0 (js ''model'')
                             (VStr (js ''gemini-2.5-pro''))))
                   (agents (workspace initialApp) ! 0)) (js ''model'')
       = VStr (js ''gemini-2.5-pro'')
   \<and> get_prop (heap initialApp (agents (workspace initialApp) ! 0)) (js ''params'') = VObj 1
   \<and> get_prop (heap initialApp 1) (js ''temperature'') = VNum (2 / 10)
   \<and> get_prop (heap (snd (handleRunConfigChange initialApp 0 (js ''params.temperature'')
                             (VNum 1)))
                   (agents (workspace initialApp) ! 0)) (js ''params'') = VObj 1
   \<and> get_prop (heap (snd (handleRunConfigChange initialApp 0 (js ''params.temperature'')
                             (VNum 1))) 1) (js ''temperature'') = VNum 1"
  by (simp add: handleRunConfigChange_def initialApp_def initialAgents_def initialHeap_def
      agent_object_def params_object_def array_get_def get_prop_def js_inj
      startsWith_model startsWith_temperature paramKey_temperature Let_def)

text \<open>
  C2. The claim: whenever agent \<open>i\<close> is the first whose invocation fails, \<open>error\<close> is
  not empty when the run ends. The code stores the message of the failure as it is: in
  the chain of four agents, a second call rejected with an empty message ends the run
  with one entry in the run log, \<open>isRunning\<close> false and an empty \<open>error\<close>.
\<close>

theorem C2_counterexample:
  "generateContent empty_message_service 1
       (snd (handleRunChain empty_message_service initialApp (js ''go'')) ! 1) = Rejected []
   \<and> length (agentsRunConfig (workspace initialApp)) = 4
   \<and> length (snd (handleRunChain empty_message_service initialApp (js ''go''))) = 2
   \<and> length (runLog (workspace (fst (handleRunChain empty_message_service initialApp
                                         (js ''go''))))) = 1
   \<and> isRunning (workspace (fst (handleRunChain empty_message_service initialApp
                                   (js ''go'')))) = False
   \<and> error (workspace (fst (handleRunChain empty_message_service initialApp (js ''go''))))
       = Some []"
  by (simp add: empty_message_run initialApp_sel initialAgents_def;
      simp add: empty_message_service_def)

text \<open>
  C2, as amended. In every run in which the loop completes its first \<open>j\<close> agents and the
  request of the next one, agent \<open>j + 1\<close>, is rejected, the requests sent are those of
  the first \<open>j\<close> agents and that one request, and no other: no agent after it is invoked
  and it is not tried again. When the run ends the run log holds the \<open>j\<close> entries of the
  completed agents, \<open>error\<close> is set to the message of the rejection as it is (so it is
  not empty exactly when that message is not), \<open>isRunning\<close> is false, \<open>agents_run\<close> is
  \<open>j\<close> and \<open>latency\<close> is the total of the \<open>j\<close> completed steps. In the chain of four
  agents whose second request is rejected with a message, the run log has one entry and
  \<open>error\<close> is that message.
\<close>

theorem C2_first_failure:
  assumes j: "j < length (agentsRunConfig (workspace st))"
    and client: "newClient env = None"
    and pre: "fst (run_prefix env st baseInput j) = None"
    and req: "build_request (heap st) (agentsRunConfig (workspace st) ! j)
                (currentInput (snd (snd (run_prefix env st baseInput j)))) = Some req"
    and rej: "generateContent env j req = Rejected msg"
  shows "snd (handleRunChain env st baseInput)
       = sent (snd (snd (run_prefix env st baseInput j))) @ [req]
    \<and> length (snd (handleRunChain env st baseInput)) = Suc j
    \<and> runLog (workspace (fst (handleRunChain env st baseInput)))
       = newRunLog (snd (snd (run_prefix env st baseInput j)))
    \<and> length (runLog (workspace (fst (handleRunChain env st baseInput)))) = j
    \<and> error (workspace (fst (handleRunChain env st baseInput))) = Some msg
    \<and> error (workspace (fst (handleRunChain env st baseInput))) \<noteq> None
    \<and> (error (workspace (fst (handleRunChain env st baseInput))) = Some []) = (msg = [])
    \<and> isRunning (workspace (fst (handleRunChain env st baseInput))) = False
    \<and> agents_run (metrics (workspace (fst (handleRunChain env st baseInput)))) = j
    \<and> latency (metrics (workspace (fst (handleRunChain env st baseInput))))
       = totalLatency (snd (snd (run_prefix env st baseInput j)))
    \<and> latency (metrics (workspace (fst (handleRunChain env st baseInput))))
       = foldl js_add 0 (map (step_latency env) [0..<j])"
proof -
  let ?cfg = "agentsRunConfig (workspace st)"
  obtain cp wsp lp where p: "run_prefix env st baseInput j = (cp, wsp, lp)"
    by (metis prod_cases3)
  with pre have run: "run_agents env (heap st) (take j ?cfg)
      (start_run (workspace st), init_locals baseInput) = (None, wsp, lp)"
    by (simp add: run_prefix_def)
  have d: "take j ?cfg = drop (length (newRunLog (init_locals baseInput))) (take j ?cfg)"
    by (simp add: init_locals_def)
  from run_agents_inv [OF init_ok d run]
  have ok: "inv_ok env (heap st) baseInput (take j ?cfg) (wsp, lp)"
    and len: "length (newRunLog lp) = length (take j ?cfg)"
    by blast+
  from len j have lenj: "length (newRunLog lp) = j" by simp
  from ok lenj have sentj: "length (sent lp) = j"
    and tot: "totalLatency lp = foldl js_add 0 (map (step_latency env) [0..<j])"
    and log: "runLog wsp = newRunLog lp"
    by (simp_all add: inv_ok_def inv_any_def Let_def)
  from req p have req': "build_request (heap st) (?cfg ! j) (currentInput lp) = Some req"
    by simp
  have step: "run_agent env (heap st) (?cfg ! j) (wsp, lp)
      = (Some msg, wsp, lp\<lparr> clock_reads := clock_reads lp + 1, sent := sent lp @ [req] \<rparr>)"
    using req' rej sentj by (simp add: run_agent_eq)
  have cfg: "?cfg = take j ?cfg @ (?cfg ! j) # drop (Suc j) ?cfg"
    using j by (simp add: id_take_nth_drop)
  have "run_agents env (heap st) (take j ?cfg @ (?cfg ! j) # drop (Suc j) ?cfg)
      (start_run (workspace st), init_locals baseInput)
      = (Some msg, wsp, lp\<lparr> clock_reads := clock_reads lp + 1, sent := sent lp @ [req] \<rparr>)"
    by (simp add: run_agents_append run step)
  with cfg have full: "run_agents env (heap st) ?cfg
      (start_run (workspace st), init_locals baseInput)
      = (Some msg, wsp, lp\<lparr> clock_reads := clock_reads lp + 1, sent := sent lp @ [req] \<rparr>)"
    by simp
  from handleRunChain_unfold [OF client full] p lenj sentj tot log show ?thesis
    by simp
qed

theorem C2_first_failure_witness:
  "length (agentsRunConfig (workspace initialApp)) = 4
   \<and> length (snd (handleRunChain failing_service initialApp (js ''go''))) = 2
   \<and> length (runLog (workspace (fst (handleRunChain failing_service initialApp (js ''go''))))) = 1
   \<and> error (workspace (fst (handleRunChain failing_service initialApp (js ''go''))))
      = Some (js ''Failed to fetch'')
   \<and> error (workspace (fst (handleRunChain failing_service initialApp (js ''go''))))
      \<noteq> Some []
   \<and> isRunning (workspace (fst (handleRunChain failing_service initialApp (js ''go'')))) = False
   \<and> agents_run (metrics (workspace (fst (handleRunChain failing_service initialApp (js ''go''))))) = 1
   \<and> latency (metrics (workspace (fst (handleRunChain failing_service initialApp (js ''go'')))))
      = 257 / 256"
proof -
  let ?req = "\<lparr> req_model = VStr (js ''gemini-2.5-pro''), contents = js ''go!'',
         systemInstruction = VStr system_prompt_GapAnalyzer,
         temperature = VNum (2 / 10), maxOutputTokens = VNum 2000 \<rparr>"
  have j: "1 < length (agentsRunConfig (workspace initialApp))"
    by (simp add: initialApp_sel initialAgents_def)
  have client: "newClient failing_service = None"
    by (simp add: failing_service_def example_service_def)
  have pre: "fst (run_prefix failing_service initialApp (js ''go'') 1) = None"
    by (simp add: failing_prefix)
  have req: "build_request (heap initialApp) (agentsRunConfig (workspace initialApp) ! 1)
      (currentInput (snd (snd (run_prefix failing_service initialApp (js ''go'') 1))))
      = Some ?req"
    by (simp add: failing_prefix initialApp_sel initialAgents_def build_request_initial)
  have rej: "generateContent failing_service 1 ?req = Rejected (js ''Failed to fetch'')"
    by (simp add: failing_service_def)
  have msg: "js ''Failed to fetch'' \<noteq> []"
    by (simp add: js_def)
  from C2_first_failure [OF j client pre req rej] msg show ?thesis
    by (simp add: failing_prefix initialApp_sel initialAgents_def)
qed

text \<open>
  C3. The claim: after a successful run the total latency of the metrics equals the sum
  of the latencies recorded in the run log. The code records each latency rounded to
  two decimals and adds up the unrounded ones: with four steps of 257/256 s
  (1.00390625 s) each, every operation on doubles being exact, the metrics hold
  4.015625 s and the recorded latencies, 1.00 each, add up to 4.
\<close>

theorem C3_counterexample:
  "error (workspace (fst (handleRunChain example_service initialApp (js ''go'')))) = None
   \<and> latency (metrics (workspace (fst (handleRunChain example_service initialApp (js ''go'')))))
       = 257 / 64
   \<and> map latency_fixed
         (runLog (workspace (fst (handleRunChain example_service initialApp (js ''go'')))))
       = [1, 1, 1, 1]
   \<and> sum_list (map latency_fixed
         (runLog (workspace (fst (handleRunChain example_service initialApp (js ''go''))))))
       = 4"
  by (simp add: example_run initialApp_sel)

text \<open>
  C3, as amended. After every successful run over N agent definitions the run log has
  N entries, \<open>agents_run\<close> is N, N requests were sent, and the total latency of the
  metrics is the sum, added up in step order in binary64 arithmetic, of the elapsed
  seconds of the N steps at full precision; entry \<open>k\<close> records the elapsed seconds of
  step \<open>k\<close> rounded to two decimals by \<^verbatim>\<open>toFixed(2)\<close>, which is within 0.005 s of them.
\<close>

theorem C3_successful_run:
  assumes "error (workspace (fst (handleRunChain env st baseInput))) = None"
  shows "length (runLog (workspace (fst (handleRunChain env st baseInput))))
       = length (agentsRunConfig (workspace st))
    \<and> agents_run (metrics (workspace (fst (handleRunChain env st baseInput))))
       = length (agentsRunConfig (workspace st))
    \<and> length (snd (handleRunChain env st baseInput))
       = length (agentsRunConfig (workspace st))
    \<and> latency (metrics (workspace (fst (handleRunChain env st baseInput))))
       = foldl js_add 0
           (map (step_latency env) [0..<length (agentsRunConfig (workspace st))])
    \<and> map latency_fixed (runLog (workspace (fst (handleRunChain env st baseInput))))
       = map (\<lambda>k. toFixed2 (step_latency env k)) [0..<length (agentsRunConfig (workspace st))]
    \<and> (\<forall>k<length (agentsRunConfig (workspace st)).
          \<bar>latency_fixed (runLog (workspace (fst (handleRunChain env st baseInput))) ! k)
             - step_latency env k\<bar> \<le> 1 / 200)"
proof (cases "newClient env")
  case (Some msg)
  with assms show ?thesis by (simp add: handleRunChain_no_client)
next
  case None
  obtain c ws' l' where run: "run_agents env (heap st) (agentsRunConfig (workspace st))
      (start_run (workspace st), init_locals baseInput) = (c, ws', l')"
    by (metis prod_cases3)
  note res = handleRunChain_unfold [OF None run]
  from assms res have c: "c = None" by (cases c) simp_all
  let ?n = "length (agentsRunConfig (workspace st))"
  from run_result(2,3) [OF run c]
  have len: "length (newRunLog l') = ?n"
    and log: "runLog ws' = newRunLog l'"
    and snt: "length (sent l') = ?n"
    and tot: "totalLatency l' = foldl js_add 0 (map (step_latency env) [0..<?n])"
    and fixed: "map latency_fixed (newRunLog l')
      = map (\<lambda>k. toFixed2 (step_latency env k)) [0..<?n]"
    by (simp_all add: inv_ok_def inv_any_def Let_def)
  have near: "\<bar>latency_fixed (newRunLog l' ! k) - step_latency env k\<bar> \<le> 1 / 200"
    if k: "k < ?n" for k
  proof -
    from k len have "latency_fixed (newRunLog l' ! k) = map latency_fixed (newRunLog l') ! k"
      by simp
    also from k have "\<dots> = toFixed2 (step_latency env k)"
      by (simp add: fixed)
    finally show ?thesis using toFixed2_near [of "step_latency env k"] by simp
  qed
  from res c len log snt tot fixed near show ?thesis
    by simp
qed

theorem C3_successful_run_witness:
  "length (runLog (workspace (fst (handleRunChain example_service initialApp (js ''go''))))) = 4
   \<and> agents_run (metrics (workspace (fst (handleRunChain example_service initialApp (js ''go''))))) = 4
   \<and> length (snd (handleRunChain example_service initialApp (js ''go''))) = 4
   \<and> latency (metrics (workspace (fst (handleRunChain example_service initialApp (js ''go'')))))
       = 257 / 64
   \<and> map latency_fixed
         (runLog (workspace (fst (handleRunChain example_service initialApp (js ''go'')))))
       = [1, 1, 1, 1]
   \<and> foldl js_add 0 (map (step_latency example_service) [0..<4]) = 257 / 64
   \<and> \<bar>latency_fixed
          (runLog (workspace (fst (handleRunChain example_service initialApp (js ''go'')))) ! 3)
        - step_latency example_service 3\<bar> \<le> 1 / 200"
proof -
  have ok: "error (workspace (fst (handleRunChain example_service initialApp (js ''go''))))
      = None"
    by (simp add: example_run initialApp_sel)
  have four: "length (agentsRunConfig (workspace initialApp)) = 4"
    by (simp add: initialApp_sel initialAgents_def)
  note t = C3_successful_run [OF ok, unfolded four]
  from t have "\<bar>latency_fixed
          (runLog (workspace (fst (handleRunChain example_service initialApp (js ''go'')))) ! 3)
        - step_latency example_service 3\<bar> \<le> 1 / 200"
    by simp
  moreover from t have "latency (metrics (workspace (fst (handleRunChain example_service
        initialApp (js ''go''))))) = foldl js_add 0 (map (step_latency example_service) [0..<4])"
    by blast
  moreover have "latency (metrics (workspace (fst (handleRunChain example_service
        initialApp (js ''go''))))) = 257 / 64"
    by (simp add: example_run initialApp_sel)
  ultimately show ?thesis
    by (simp add: example_run initialApp_sel)
qed

text \<open>
  C4. In every run, the \<open>k\<close>-th request sent (counted from 0) is the request of agent
  \<open>k\<close> of the run configuration, and its input is the initial input of the run for
  \<open>k = 0\<close> and the output recorded in the run log for agent \<open>k - 1\<close> otherwise, empty
  or not.
\<close>

theorem C4_handoff:
  assumes "k < length (snd (handleRunChain env st baseInput))"
  shows "k < length (agentsRunConfig (workspace st))
    \<and> k \<le> length (runLog (workspace (fst (handleRunChain env st baseInput))))
    \<and> build_request (heap st) (agentsRunConfig (workspace st) ! k)
         (if k = 0 then baseInput
          else output (runLog (workspace (fst (handleRunChain env st baseInput))) ! (k - 1)))
       = Some (snd (handleRunChain env st baseInput) ! k)
    \<and> contents (snd (handleRunChain env st baseInput) ! k)
       = (if k = 0 then baseInput
          else output (runLog (workspace (fst (handleRunChain env st baseInput))) ! (k - 1)))"
proof (cases "newClient env")
  case (Some msg)
  with assms show ?thesis by (simp add: handleRunChain_no_client)
next
  case None
  obtain c ws' l' where run: "run_agents env (heap st) (agentsRunConfig (workspace st))
      (start_run (workspace st), init_locals baseInput) = (c, ws', l')"
    by (metis prod_cases3)
  note res = handleRunChain_unfold [OF None run]
  from assms res have k: "k < length (sent l')" by simp
  from res have log: "runLog (workspace (fst (handleRunChain env st baseInput))) = runLog ws'"
    by (simp split: option.splits)
  from run_result(1) [OF run]
  have inv: "runLog ws' = newRunLog l'"
    "length (sent l') \<le> Suc (length (newRunLog l'))"
    "length (sent l') \<le> length (agentsRunConfig (workspace st))"
    "\<forall>k<length (sent l').
        build_request (heap st) (agentsRunConfig (workspace st) ! k)
          (handoff_input baseInput (newRunLog l') k) = Some (sent l' ! k)"
    by (simp_all add: inv_any_def Let_def)
  from inv(4) k have req: "build_request (heap st) (agentsRunConfig (workspace st) ! k)
          (handoff_input baseInput (newRunLog l') k) = Some (sent l' ! k)"
    by blast
  from k inv(2,3) have kn: "k < length (agentsRunConfig (workspace st))"
    and kl: "k \<le> length (newRunLog l')"
    by simp_all
  from build_request_contents [OF req] req kn kl inv(1) log res show ?thesis
    by (cases "k = 0") (simp_all add: handoff_input_def)
qed

theorem C4_handoff_witness:
  "length (snd (handleRunChain example_service initialApp (js ''go''))) = 4
   \<and> contents (snd (handleRunChain example_service initialApp (js ''go'')) ! 0) = js ''go''
   \<and> contents (snd (handleRunChain example_service initialApp (js ''go'')) ! 1)
       = output (runLog (workspace (fst (handleRunChain example_service initialApp (js ''go'')))) ! 0)
   \<and> contents (snd (handleRunChain example_service initialApp (js ''go'')) ! 1) = js ''go!''
   \<and> contents (snd (handleRunChain example_service initialApp (js ''go'')) ! 3)
       = output (runLog (workspace (fst (handleRunChain example_service initialApp (js ''go'')))) ! 2)
   \<and> contents (snd (handleRunChain example_service initialApp (js ''go'')) ! 3) = []"
  using C4_handoff [of 0 example_service initialApp "js ''go''"]
    C4_handoff [of 1 example_service initialApp "js ''go''"]
    C4_handoff [of 3 example_service initialApp "js ''go''"]
  by (simp add: example_run initialApp_sel)

text \<open>
  C5. After each operation that takes in or edits the document text, the character
  count equals the length of the text: after every edit of the raw text, after every
  upload of a text file that is read, after every PDF upload whose pages are all
  recognised; an upload that takes nothing in leaves the state, and with it the
  equality, as it was.
\<close>

theorem C5_chars_is_length:
  "chars_ok (handleRawTextChange st newText)
   \<and> chars_ok (handleFileChange st (TextFile (Some text)))
   \<and> (ocr_loop pages [] \<noteq> None \<longrightarrow> chars_ok (handlePdfUpload st (Some pages)))
   \<and> (ocr_loop pages [] \<noteq> None \<longrightarrow> chars_ok (handleFileChange st (PdfFile (Some pages))))
   \<and> (chars_ok st \<longrightarrow> chars_ok (handleFileChange st file))
   \<and> (chars_ok st \<longrightarrow> chars_ok (handlePdfUpload st pdf))"
  by (auto simp add: chars_ok_def handleRawTextChange_def handleFileChange_def
      handlePdfUpload_def Let_def split: upload.splits option.splits)

theorem C5_chars_is_length_witness:
  "chars_ok (handleRawTextChange initialApp (js ''new guidance''))
   \<and> chars_ok (handleFileChange initialApp (TextFile (Some (js ''text of a file''))))
   \<and> chars_ok (handlePdfUpload initialApp (Some [Recognized (js ''page 1'')]))
   \<and> chars_ok (handleFileChange initialApp (PdfFile (Some [Recognized (js ''page 1'')])))
   \<and> chars_ok (handleFileChange initialApp (PdfFile (Some [PageRejected])))
   \<and> chars_ok (handlePdfUpload initialApp None)"
  using C5_chars_is_length [of initialApp "js ''new guidance''" "js ''text of a file''"
      "[Recognized (js ''page 1'')]" "PdfFile (Some [PageRejected])" None]
  by (simp add: chars_ok_def initialApp_def)

text \<open>
  C6. The claim: after the ingestion of a PDF of P pages the raw text is the texts of
  the pages with a blank line between them. The code appends a blank line after every
  page, the last one too, so a one-page PDF whose page reads "A" gives "A" followed by
  two line feeds.
\<close>

theorem C6_counterexample:
  "rawText (workspace (handlePdfUpload initialApp (Some [Recognized (js ''A'')])))
     \<noteq> join_blank_line [js ''A'']"
  by (simp add: handlePdfUpload_def)

text \<open>
  C6, as amended. After the ingestion of a PDF whose P pages are all recognised, the raw
  text is the concatenation, in page order, of each page's text followed by a blank
  line (the joined texts and one more blank line when there is a page),
  \<open>ocr_pages\<close> is P and \<open>chars\<close> is the length of the new text; after the ingestion
  of a text file \<open>ocr_pages\<close> is 0.
\<close>

theorem C6_pdf_ingestion:
  "rawText (workspace (handlePdfUpload st (Some (map Recognized texts))))
     = concat (map (\<lambda>t. t @ [0x0A, 0x0A]) texts)
   \<and> (texts \<noteq> [] \<longrightarrow>
        rawText (workspace (handlePdfUpload st (Some (map Recognized texts))))
          = join_blank_line texts @ [0x0A, 0x0A])
   \<and> ocr_pages (metrics (workspace (handlePdfUpload st (Some (map Recognized texts)))))
       = length texts
   \<and> chars (metrics (workspace (handlePdfUpload st (Some (map Recognized texts)))))
       = length (rawText (workspace (handlePdfUpload st (Some (map Recognized texts)))))
   \<and> handleFileChange st (PdfFile pdf) = handlePdfUpload st pdf
   \<and> ocr_pages (metrics (workspace (handleFileChange st (TextFile (Some text))))) = 0"
  by (simp add: handlePdfUpload_def handleFileChange_def ocr_loop_Recognized
      join_blank_line_concat)

theorem C6_pdf_ingestion_witness:
  "rawText (workspace (handlePdfUpload initialApp
       (Some (map Recognized [js ''A'', js ''B'']))))
     = js ''A'' @ [0x0A, 0x0A] @ js ''B'' @ [0x0A, 0x0A]
   \<and> ocr_pages (metrics (workspace (handlePdfUpload initialApp
       (Some (map Recognized [js ''A'', js ''B'']))))) = 2
   \<and> chars (metrics (workspace (handlePdfUpload initialApp
       (Some (map Recognized [js ''A'', js ''B'']))))) = 6"
  using C6_pdf_ingestion [of initialApp "[js ''A'', js ''B'']"]
  by (simp add: js_def)

text \<open>
  C7. For every run log and every index \<open>i\<close> of an entry, \<open>handleHandoffEdit\<close> returns and
  replaces the output of entry \<open>i\<close> only: the agent name, the model and the latency of
  entry \<open>i\<close>, every other entry and the metrics (the total latency among them) are
  unchanged, and so is the rest of the state. The handler takes no service: it invokes
  no agent.
\<close>

theorem C7_handoff_edit:
  assumes "0 \<le> i" and "i < int (length (runLog (workspace st)))"
  shows "fst (handleHandoffEdit st i newOutput) = Returned
   \<and> length (runLog (workspace (snd (handleHandoffEdit st i newOutput))))
       = length (runLog (workspace st))
   \<and> output (runLog (workspace (snd (handleHandoffEdit st i newOutput))) ! nat i) = newOutput
   \<and> agentName (runLog (workspace (snd (handleHandoffEdit st i newOutput))) ! nat i)
       = agentName (runLog (workspace st) ! nat i)
   \<and> model (runLog (workspace (snd (handleHandoffEdit st i newOutput))) ! nat i)
       = model (runLog (workspace st) ! nat i)
   \<and> latency_fixed (runLog (workspace (snd (handleHandoffEdit st i newOutput))) ! nat i)
       = latency_fixed (runLog (workspace st) ! nat i)
   \<and> (\<forall>j. j < length (runLog (workspace st)) \<and> j \<noteq> nat i \<longrightarrow>
          runLog (workspace (snd (handleHandoffEdit st i newOutput))) ! j
            = runLog (workspace st) ! j)
   \<and> metrics (workspace (snd (handleHandoffEdit st i newOutput))) = metrics (workspace st)
   \<and> snd (handleHandoffEdit st i newOutput)
       = st\<lparr> workspace := (workspace st)
               \<lparr> runLog := runLog (workspace (snd (handleHandoffEdit st i newOutput))) \<rparr> \<rparr>"
  using assms by (simp add: handleHandoffEdit_def array_get_def Let_def)

theorem C7_handoff_edit_witness:
  "handleHandoffEdit
     (initialApp\<lparr> workspace := (workspace initialApp)
        \<lparr> runLog := [\<lparr> agentName = VStr (js ''RequirementExtractor''),
                        model = VStr (js ''gemini-2.5-flash''),
                        output = js ''first'', latency_fixed = 1 \<rparr>,
                      \<lparr> agentName = VStr (js ''GapAnalyzer''),
                        model = VStr (js ''gemini-2.5-pro''),
                        output = js ''second'', latency_fixed = 2 \<rparr>] \<rparr> \<rparr>)
     1 (js ''edited'')
   = (Returned,
      initialApp\<lparr> workspace := (workspace initialApp)
        \<lparr> runLog := [\<lparr> agentName = VStr (js ''RequirementExtractor''),
                        model = VStr (js ''gemini-2.5-flash''),
                        output = js ''first'', latency_fixed = 1 \<rparr>,
                      \<lparr> agentName = VStr (js ''GapAnalyzer''),
                        model = VStr (js ''gemini-2.5-pro''),
                        output = js ''edited'', latency_fixed = 2 \<rparr>] \<rparr> \<rparr>)"
  using C7_handoff_edit [of 1
      "initialApp\<lparr> workspace := (workspace initialApp)
        \<lparr> runLog := [\<lparr> agentName = VStr (js ''RequirementExtractor''),
                        model = VStr (js ''gemini-2.5-flash''),
                        output = js ''first'', latency_fixed = 1 \<rparr>,
                      \<lparr> agentName = VStr (js ''GapAnalyzer''),
                        model = VStr (js ''gemini-2.5-pro''),
                        output = js ''second'', latency_fixed = 2 \<rparr>] \<rparr> \<rparr>"
      "js ''edited''"]
  by (simp add: handleHandoffEdit_def array_get_def)

text \<open>
  C8. The completion score is a function of \<open>ocr_pages\<close>, \<open>chars\<close> and \<open>agents_run\<close>
  alone: one point for (\<open>ocr_pages > 0\<close> or \<open>chars > 1000\<close>), one for
  \<open>agents_run \<ge> 2\<close>, one for (\<open>chars > 5000\<close> and \<open>agents_run \<ge> 4\<close>), added up with no
  short-circuit. With 6000 characters and 4 agents run the score is 3, labelled
  "Wow! Pro Level"; with 500 characters, no agent run and no OCR page it is 0, labelled
  "Getting Started"; with 1200 characters and 2 agents run it is 2.
\<close>

theorem C8_score:
  "score m = of_bool (0 < ocr_pages m \<or> 1000 < chars m)
           + of_bool (2 \<le> agents_run m)
           + of_bool (5000 < chars m \<and> 4 \<le> agents_run m)
   \<and> score \<lparr>ocr_pages = p, chars = 6000, agents_run = 4, latency = l\<rparr> = 3
   \<and> statusLabel 3 = Some ''Wow! Pro Level''
   \<and> score \<lparr>ocr_pages = 0, chars = 500, agents_run = 0, latency = l\<rparr> = 0
   \<and> statusLabel 0 = Some ''Getting Started''
   \<and> score \<lparr>ocr_pages = p, chars = 1200, agents_run = 2, latency = l\<rparr> = 2"
  by (simp add: score_def statusLabel_def)

text \<open>
  C9. For every state, the exported object has as \<open>guidance_excerpt\<close> the first
  \<open>min 1000 (length rawText)\<close> code units of the raw text, as \<open>chain\<close> the run log in its
  order with each entry reduced to agent, model and output, and the metrics; the file
  offered for download is named \<^verbatim>\<open>agent_chain_results.json\<close>.
\<close>

theorem C9_export:
  "fst (downloadResults st) = ''agent_chain_results.json''
   \<and> guidance_excerpt (snd (downloadResults st))
       = take (min 1000 (length (rawText (workspace st)))) (rawText (workspace st))
   \<and> length (guidance_excerpt (snd (downloadResults st)))
       = min 1000 (length (rawText (workspace st)))
   \<and> chain (snd (downloadResults st))
       = map (\<lambda>e. \<lparr> agent = agentName e, chain_model = model e, chain_output = output e \<rparr>)
           (runLog (workspace st))
   \<and> export_metrics (snd (downloadResults st)) = metrics (workspace st)"
  by (simp add: downloadResults_def substring_0_1000_def min_def)

text \<open>
  C10. \<open>handleRunConfigChange\<close> checks no bound: for every index outside
  \<open>0 .. length agentsRunConfig - 1\<close> a \<^verbatim>\<open>TypeError\<close> escapes and the state is the one the
  handler was called on, whatever the field and the value; for an index inside and a
  top-level field the handler returns.
\<close>

theorem C10_index_out_of_range:
  "(\<not> (0 \<le> index \<and> index < int (length (agentsRunConfig (workspace st))))
      \<longrightarrow> handleRunConfigChange st index field val = (TypeError, st))
   \<and> (0 \<le> index \<and> index < int (length (agentsRunConfig (workspace st)))
        \<and> \<not> startsWith field (js ''params.'')
      \<longrightarrow> fst (handleRunConfigChange st index field val) = Returned)"
  by (simp add: handleRunConfigChange_def array_get_def Let_def)

theorem C10_index_out_of_range_witness:
  "handleRunConfigChange initialApp 4 (js ''model'') (VStr (js ''gemini-2.5-pro''))
     = (TypeError, initialApp)
   \<and> handleRunConfigChange initialApp (- 1) (js ''params.temperature'') (VNum 1)
     = (TypeError, initialApp)
   \<and> fst (handleRunConfigChange initialApp 3 (js ''model'') (VStr (js ''gemini-2.5-pro'')))
     = Returned"
  using C10_index_out_of_range [of 4 initialApp "js ''model''" "VStr (js ''gemini-2.5-pro'')"]
    C10_index_out_of_range [of "- 1" initialApp "js ''params.temperature''" "VNum 1"]
    C10_index_out_of_range [of 3 initialApp "js ''model''" "VStr (js ''gemini-2.5-pro'')"]
  by (simp add: initialApp_def initialAgents_def startsWith_model)

end
